theory Spec2Isabelle
  imports Main "HOL-Library.Sublist"
begin

section \<open>Python values, exceptions and the environment\<close>

text \<open>
  A Python \<open>str\<close> is represented by the list of bytes of its UTF-8 encoding. Every
  operation the program applies to strings looks for ASCII characters only
  (\<open>"/"\<close>, \<open>"?"\<close>, \<open>"youtu.be"\<close>, ...), and on those a search in the UTF-8 bytes finds
  what the search in the code points finds.
\<close>

datatype exc =
    ValueError | TypeError | KeyError | RuntimeError | NotImplementedError
  | ValidationError | OSError | FileNotFoundError | NotADirectoryError | JSONDecodeError
  | LibraryError string

text \<open>
  An \<open>error\<close> is an instance of a subclass of Python's \<open>Exception\<close>, given by its class
  and by the text \<open>str(e)\<close>, or the mark \<open>Unmodelled\<close>: the program has left the part of
  the file system that \<open>world\<close> below describes. Where the text of a library's
  exception names an index, a class or an input, it is shortened; \<open>LibraryError\<close>
  stands for the exception classes of the transcript library.
\<close>

datatype error = Exception exc string | Unmodelled

text \<open>
  The values that cross the JSON boundary: what the transcript library returns, what
  \<open>json.loads\<close> produces and what a client sends as tool arguments. A float is kept as
  mantissa and binary exponent; the keys of a dictionary are distinct.
\<close>

datatype pyval =
    PyNone
  | PyBool bool
  | PyInt int
  | PyFloat int int
  | PyStr string
  | PyList "pyval list"
  | PyDict "(string \<times> pyval) list"

text \<open>
  The collaborators that are not part of the repository enter as parameters:
  \<^item> \<open>netloc_accepted\<close>: the verdict of \<open>urllib.parse\<close> on a network location that is
    bracketed or not ASCII (\<open>_check_bracketed_netloc\<close>, \<open>_checknetloc\<close>);
  \<^item> \<open>unquote_escaped\<close>: \<open>urllib.parse.unquote\<close> on a string that contains \<open>%\<close>;
  \<^item> \<open>get_transcript\<close>: \<open>YouTubeTranscriptApi.get_transcript\<close>, which may answer
    differently over time: its first argument is the list of the identifiers requested
    so far;
  \<^item> \<open>json_dumps\<close>, \<open>json_loads\<close>: \<open>json.dumps(_, indent=None)\<close> and \<open>json.loads\<close>.
\<close>

record env =
  netloc_accepted :: "string \<Rightarrow> bool"
  unquote_escaped :: "string \<Rightarrow> string"
  get_transcript :: "string list \<Rightarrow> string \<Rightarrow> error + pyval"
  json_dumps :: "pyval \<Rightarrow> error + string"
  json_loads :: "string \<Rightarrow> error + pyval"

section \<open>Strings\<close>

text \<open>\<open>s.split(sep)\<close> for a separator of one character: never the empty list.\<close>

fun split_chr :: "char \<Rightarrow> string \<Rightarrow> string list" where
  "split_chr sep [] = [[]]"
| "split_chr sep (c # cs) =
     (if c = sep then [] # split_chr sep cs
      else (case split_chr sep cs of
              [] \<Rightarrow> [[c]]
            | seg # segs \<Rightarrow> (c # seg) # segs))"

text \<open>\<open>s.split(sep, 1)\<close> on a string that contains \<open>sep\<close>: the two parts.\<close>

definition split_once :: "char \<Rightarrow> string \<Rightarrow> string \<times> string" where
  "split_once sep s =
     (takeWhile (\<lambda>c. c \<noteq> sep) s, drop 1 (dropWhile (\<lambda>c. c \<noteq> sep) s))"

text \<open>\<open>" ".join(parts)\<close>.\<close>

fun join_space :: "string list \<Rightarrow> string" where
  "join_space [] = []"
| "join_space [s] = s"
| "join_space (s # t # ts) = s @ '' '' @ join_space (t # ts)"

definition is_ascii :: "char \<Rightarrow> bool" where
  "is_ascii c = ((of_char c :: nat) < 128)"

definition is_ascii_alpha :: "char \<Rightarrow> bool" where
  "is_ascii_alpha c =
     (let n = (of_char c :: nat) in (65 \<le> n \<and> n \<le> 90) \<or> (97 \<le> n \<and> n \<le> 122))"

definition is_scheme_char :: "char \<Rightarrow> bool" where
  "is_scheme_char c =
     (let n = (of_char c :: nat)
      in is_ascii_alpha c \<or> (48 \<le> n \<and> n \<le> 57)
         \<or> c = CHR ''+'' \<or> c = CHR ''-'' \<or> c = CHR ''.'')"

definition ascii_lower :: "char \<Rightarrow> char" where
  "ascii_lower c =
     (let n = (of_char c :: nat) in if 65 \<le> n \<and> n \<le> 90 then char_of (n + 32) else c)"

section \<open>The functions of \<open>urllib.parse\<close> that the program calls\<close>

text \<open>
  \<open>urlparse\<close> after CPython's \<open>urlsplit\<close>: leading control characters and spaces are
  stripped, tabs and line breaks removed, then scheme, network location, fragment and
  query are cut off in this order. \<open>urlparse\<close> goes on to cut \<open>params\<close> off the path,
  which changes neither \<open>netloc\<close> nor \<open>query\<close>; the record keeps the path whole.
  A \<open>ValueError\<close> is raised for a network location with one bracket but not the other,
  and for one that \<open>netloc_accepted\<close> rejects.
\<close>

record ParseResult =
  scheme :: string
  netloc :: string
  path :: string
  query :: string
  fragment :: string

definition urlparse :: "env \<Rightarrow> string \<Rightarrow> error + ParseResult" where
  "urlparse E url0 =
     (let url1 = dropWhile (\<lambda>c. (of_char c :: nat) \<le> 32) url0;
          url2 = filter (\<lambda>c. c \<noteq> CHR 0x09 \<and> c \<noteq> CHR 0x0A \<and> c \<noteq> CHR 0x0D) url1;
          pre = takeWhile (\<lambda>c. c \<noteq> CHR '':'') url2;
          has_scheme = (CHR '':'' \<in> set url2 \<and> pre \<noteq> [] \<and> is_ascii_alpha (hd url2)
                        \<and> list_all is_scheme_char pre);
          sch = (if has_scheme then map ascii_lower pre else []);
          url3 = (if has_scheme then drop (Suc (length pre)) url2 else url2);
          has_netloc = (take 2 url3 = ''//'');
          after = drop 2 url3;
          delim = (\<lambda>c. c = CHR ''/'' \<or> c = CHR ''?'' \<or> c = CHR ''#'');
          nl = (if has_netloc then takeWhile (\<lambda>c. \<not> delim c) after else []);
          url4 = (if has_netloc then dropWhile (\<lambda>c. \<not> delim c) after else url3);
          lb = (CHR ''['' \<in> set nl);
          rb = (CHR '']'' \<in> set nl)
      in if lb \<noteq> rb then Inl (Exception ValueError ''Invalid IPv6 URL'')
         else if lb \<and> rb \<and> \<not> netloc_accepted E nl
         then Inl (Exception ValueError ''Invalid IPv6 URL'')
         else
           (let (url5, frag) =
                  (if CHR ''#'' \<in> set url4 then split_once CHR ''#'' url4 else (url4, []));
                (url6, qry) =
                  (if CHR ''?'' \<in> set url5 then split_once CHR ''?'' url5 else (url5, []))
            in if \<not> list_all is_ascii nl \<and> \<not> netloc_accepted E nl
               then Inl (Exception ValueError
                      ''netloc contains invalid characters under NFKC normalization'')
               else Inr \<lparr>scheme = sch, netloc = nl, path = url6, query = qry,
                         fragment = frag\<rparr>))"

definition unquote :: "env \<Rightarrow> string \<Rightarrow> string" where
  "unquote E s = (if CHR ''%'' \<in> set s then unquote_escaped E s else s)"

definition plus_to_space :: "string \<Rightarrow> string" where
  "plus_to_space s = map (\<lambda>c. if c = CHR ''+'' then CHR '' '' else c) s"

text \<open>
  \<open>parse_qsl\<close> with its defaults: fields are separated by \<open>&\<close>; a field without \<open>=\<close>
  and a field with a blank value are dropped.
\<close>

definition parse_qsl :: "env \<Rightarrow> string \<Rightarrow> (string \<times> string) list" where
  "parse_qsl E qs =
     concat (map (\<lambda>name_value.
        if CHR ''='' \<in> set name_value
        then (let (n, v) = split_once CHR ''='' name_value
              in if v \<noteq> []
                 then [(unquote E (plus_to_space n), unquote E (plus_to_space v))]
                 else [])
        else []) (split_chr CHR ''&'' qs))"

text \<open>\<open>parse_qs\<close>: the dictionary from each name to the list of its values, in order.\<close>

definition add_value :: "(string \<rightharpoonup> string list) \<Rightarrow> string \<times> string \<Rightarrow> (string \<rightharpoonup> string list)" where
  "add_value d p =
     (case d (fst p) of
        None \<Rightarrow> d(fst p \<mapsto> [snd p])
      | Some vs \<Rightarrow> d(fst p \<mapsto> vs @ [snd p]))"

definition parse_qs :: "env \<Rightarrow> string \<Rightarrow> (string \<rightharpoonup> string list)" where
  "parse_qs E qs = foldl add_value Map.empty (parse_qsl E qs)"

section \<open>\<open>tools.py\<close>: the URL parser\<close>

text \<open>
  \<open>_parse_youtube_url\<close>. The bare \<open>except\<close> turns every exception of the second branch
  into the result \<open>None\<close>.
\<close>

definition parse_youtube_url :: "env \<Rightarrow> string \<Rightarrow> string option" where
  "parse_youtube_url E url =
     (if sublist ''youtu.be'' url
      then Some (hd (split_chr CHR ''?'' (last (split_chr CHR ''/'' url))))
      else (case urlparse E url of
              Inl e \<Rightarrow> None
            | Inr parsed_url \<Rightarrow>
                if sublist ''youtube.com'' (netloc parsed_url)
                then (case parse_qs E (query parsed_url) ''v'' of
                        Some (x # xs) \<Rightarrow> Some x
                      | _ \<Rightarrow> None)
                else None))"

section \<open>The world outside the process\<close>

text \<open>
  The transcripts directory \<open>xdg_cache_home() / "mcp-youtube" / "transcripts"\<close> is
  either absent or a directory of regular files, given by their names and contents: it
  has no subdirectories and no links. A file name has at most 255 bytes (\<open>NAME_MAX\<close>),
  and the path of the directory leaves room below \<open>PATH_MAX\<close> for a relative path of
  that length; within these limits creating the directory or a file in it succeeds
  (permissions and quotas play no role). \<open>fetch_log\<close> lists the identifiers passed to \<open>get_transcript\<close> so far,
  \<open>logged\<close> the records written through \<open>logger.exception\<close>.
\<close>

record world =
  transcripts_dir :: "(string \<rightharpoonup> string) option"
  fetch_log :: "string list"
  logged :: "string list"

definition cache_files :: "world \<Rightarrow> (string \<rightharpoonup> string)" where
  "cache_files w = (case transcripts_dir w of None \<Rightarrow> Map.empty | Some d \<Rightarrow> d)"

text \<open>\<open>transcripts_dir.mkdir(parents=True, exist_ok=True)\<close>.\<close>

definition mkdir :: "world \<Rightarrow> world" where
  "mkdir w = w\<lparr>transcripts_dir := Some (cache_files w)\<rparr>"

text \<open>
  Where \<open>transcripts_dir.joinpath(name)\<close> points. \<open>pathlib\<close> drops empty and \<open>"."\<close>
  components. A first component of more than 255 bytes is refused by the file system.
  A name of one component is an entry of the directory. A longer name goes through
  its first component, which is not a directory. A name that starts with \<open>"/"\<close> or
  \<open>".."\<close> leaves the directory, and whether a relative path of more than 255 bytes
  stays below \<open>PATH_MAX\<close> depends on where the directory lies: both are \<open>Outside\<close>.
\<close>

datatype location =
  Entry string | Name_too_long | Missing_parent | Parent_is_file | Outside

definition joinpath :: "world \<Rightarrow> string \<Rightarrow> location" where
  "joinpath w name =
     (if take 1 name = ''/'' then Outside
      else (case filter (\<lambda>c. c \<noteq> [] \<and> c \<noteq> ''.'') (split_chr CHR ''/'' name) of
              [] \<Rightarrow> Outside
            | c # rest \<Rightarrow>
                if c = ''..'' then Outside
                else if 255 < length c then Name_too_long
                else if rest = [] then Entry c
                else if 255 < length name then Outside
                else if cache_files w c \<noteq> None then Parent_is_file
                else Missing_parent))"

text \<open>
  \<open>Path.exists\<close>: false as well for a name with a NUL character. Of the errors of
  \<open>stat\<close> it takes a missing file and a parent that is no directory for the answer
  \<open>False\<close>; the error for a name that is too long it passes on.
\<close>

definition path_exists :: "world \<Rightarrow> string \<Rightarrow> error + bool" where
  "path_exists w name =
     (if CHR 0x00 \<in> set name then Inr False
      else (case joinpath w name of
              Entry c \<Rightarrow> Inr (cache_files w c \<noteq> None)
            | Name_too_long \<Rightarrow> Inl (Exception OSError ''[Errno 36] File name too long'')
            | Missing_parent \<Rightarrow> Inr False
            | Parent_is_file \<Rightarrow> Inr False
            | Outside \<Rightarrow> Inl Unmodelled))"

text \<open>\<open>Path.write_text\<close>: creates the file or replaces its contents.\<close>

definition write_text :: "world \<Rightarrow> string \<Rightarrow> string \<Rightarrow> error + world" where
  "write_text w name data =
     (if CHR 0x00 \<in> set name then Inl (Exception ValueError ''embedded null byte'')
      else (case joinpath w name of
              Entry c \<Rightarrow>
                (case transcripts_dir w of
                   None \<Rightarrow> Inl (Exception FileNotFoundError
                              ''[Errno 2] No such file or directory'')
                 | Some d \<Rightarrow> Inr (w\<lparr>transcripts_dir := Some (d(c \<mapsto> data))\<rparr>))
            | Name_too_long \<Rightarrow> Inl (Exception OSError ''[Errno 36] File name too long'')
            | Missing_parent \<Rightarrow>
                Inl (Exception FileNotFoundError ''[Errno 2] No such file or directory'')
            | Parent_is_file \<Rightarrow>
                Inl (Exception NotADirectoryError ''[Errno 20] Not a directory'')
            | Outside \<Rightarrow> Inl Unmodelled))"

text \<open>\<open>Path.read_text\<close>.\<close>

definition read_text :: "world \<Rightarrow> string \<Rightarrow> error + string" where
  "read_text w name =
     (if CHR 0x00 \<in> set name then Inl (Exception ValueError ''embedded null byte'')
      else (case joinpath w name of
              Entry c \<Rightarrow>
                (case cache_files w c of
                   None \<Rightarrow> Inl (Exception FileNotFoundError
                              ''[Errno 2] No such file or directory'')
                 | Some data \<Rightarrow> Inr data)
            | Name_too_long \<Rightarrow> Inl (Exception OSError ''[Errno 36] File name too long'')
            | Missing_parent \<Rightarrow>
                Inl (Exception FileNotFoundError ''[Errno 2] No such file or directory'')
            | Parent_is_file \<Rightarrow>
                Inl (Exception NotADirectoryError ''[Errno 20] Not a directory'')
            | Outside \<Rightarrow> Inl Unmodelled))"

section \<open>\<open>tools.py\<close>: the transcript handler\<close>

text \<open>The argument classes: \<open>ToolArgs\<close> has the one subclass \<open>DownloadClosedCaptions\<close>.\<close>

datatype ToolArgs = DownloadClosedCaptions (video_url: string)

datatype content = TextContent string

text \<open>Truth value of a Python value, as \<open>not transcript\<close> tests it.\<close>

fun truthy :: "pyval \<Rightarrow> bool" where
  "truthy PyNone = False"
| "truthy (PyBool b) = b"
| "truthy (PyInt i) = (i \<noteq> 0)"
| "truthy (PyFloat m e) = (m \<noteq> 0)"
| "truthy (PyStr s) = (s \<noteq> [])"
| "truthy (PyList xs) = (xs \<noteq> [])"
| "truthy (PyDict kvs) = (kvs \<noteq> [])"

fun is_list :: "pyval \<Rightarrow> bool" where
  "is_list (PyList xs) = True"
| "is_list v = False"

text \<open>\<open>repr\<close> of a string without quotes or escapes of its own.\<close>

definition quoted :: "string \<Rightarrow> string" where
  "quoted s = CHR 0x27 # s @ [CHR 0x27]"

text \<open>\<open>line["text"]\<close>; the text of a \<open>KeyError\<close> is the \<open>repr\<close> of the key.\<close>

fun getitem_text :: "pyval \<Rightarrow> error + pyval" where
  "getitem_text (PyDict kvs) =
     (case map_of kvs ''text'' of
        None \<Rightarrow> Inl (Exception KeyError (quoted ''text''))
      | Some v \<Rightarrow> Inr v)"
| "getitem_text (PyList xs) =
     Inl (Exception TypeError ''list indices must be integers or slices, not str'')"
| "getitem_text (PyStr s) =
     Inl (Exception TypeError ''string indices must be integers'')"
| "getitem_text v = Inl (Exception TypeError ''object is not subscriptable'')"

text \<open>What \<open>for line in transcript\<close> runs through.\<close>

fun iterate :: "pyval \<Rightarrow> error + pyval list" where
  "iterate (PyList xs) = Inr xs"
| "iterate (PyDict kvs) = Inr (map (\<lambda>(k, v). PyStr k) kvs)"
| "iterate (PyStr s) = Inr (map (\<lambda>c. PyStr [c]) s)"
| "iterate v = Inl (Exception TypeError ''object is not iterable'')"

text \<open>A list comprehension: the first exception ends it.\<close>

fun comprehension :: "('a \<Rightarrow> error + 'b) \<Rightarrow> 'a list \<Rightarrow> error + 'b list" where
  "comprehension f [] = Inr []"
| "comprehension f (x # xs) =
     (case f x of
        Inl e \<Rightarrow> Inl e
      | Inr y \<Rightarrow> (case comprehension f xs of Inl e \<Rightarrow> Inl e | Inr ys \<Rightarrow> Inr (y # ys)))"

text \<open>\<open>str.join\<close> accepts strings only.\<close>

fun as_str :: "pyval \<Rightarrow> error + string" where
  "as_str (PyStr s) = Inr s"
| "as_str v = Inl (Exception TypeError ''sequence item: expected str instance'')"

text \<open>
  Lines 140 to 147: \<open>" ".join([line["text"] for line in transcript])\<close>, wrapped into
  one \<open>TextContent\<close>.
\<close>

definition render :: "pyval \<Rightarrow> error + content list" where
  "render transcript =
     (case iterate transcript of
        Inl e \<Rightarrow> Inl e
      | Inr lines \<Rightarrow>
          (case comprehension getitem_text lines of
             Inl e \<Rightarrow> Inl e
           | Inr texts \<Rightarrow>
               (case comprehension as_str texts of
                  Inl e \<Rightarrow> Inl e
                | Inr strs \<Rightarrow> Inr [TextContent (join_space strs)])))"

text \<open>\<open>download_closed_captions\<close>: the result and the world it leaves.\<close>

definition download_closed_captions ::
    "env \<Rightarrow> ToolArgs \<Rightarrow> world \<Rightarrow> (error + content list) \<times> world" where
  "download_closed_captions E args w0 =
     (let w1 = mkdir w0;
          unrecognized =
            (Inl (Exception ValueError (''Unrecognized YouTube URL: '' @ video_url args)), w1)
      in case parse_youtube_url E (video_url args) of
           None \<Rightarrow> unrecognized
         | Some video_id \<Rightarrow>
             if video_id = [] then unrecognized
             else
               (let file = video_id @ ''.json''
                in case path_exists w1 file of
                     Inl e \<Rightarrow> (Inl e, w1)
                   | Inr False \<Rightarrow>
                       (let w2 = w1\<lparr>fetch_log := fetch_log w1 @ [video_id]\<rparr>
                        in case get_transcript E (fetch_log w1) video_id of
                             Inl e \<Rightarrow> (Inl e, w2)
                           | Inr transcript \<Rightarrow>
                               if \<not> truthy transcript \<or> \<not> is_list transcript
                               then (Inl (Exception ValueError
                                       ''No transcript found for the video.''), w2)
                               else
                                 (case json_dumps E transcript of
                                    Inl e \<Rightarrow> (Inl e, w2)
                                  | Inr json_data \<Rightarrow>
                                      (case write_text w2 file json_data of
                                         Inl e \<Rightarrow> (Inl e, w2)
                                       | Inr w3 \<Rightarrow> (render transcript, w3))))
                   | Inr True \<Rightarrow>
                       (case read_text w1 file of
                          Inl e \<Rightarrow> (Inl e, w1)
                        | Inr json_data \<Rightarrow>
                            (case json_loads E json_data of
                               Inl e \<Rightarrow> (Inl e, w1)
                             | Inr transcript \<Rightarrow> (render transcript, w1)))))"

section \<open>\<open>tools.py\<close>: tool descriptions, argument binding and dispatch\<close>

text \<open>
  A class as \<open>tool_description\<close> and the registry see it: \<open>__name__\<close>, \<open>__doc__\<close>, whether
  it is a subclass of \<open>ToolArgs\<close>, and its declared fields (name, JSON type, required),
  from which \<open>model_json_schema()\<close> builds the input schema.
\<close>

record pyclass =
  cls_name :: string
  cls_doc :: "string option"
  cls_is_toolargs :: bool
  cls_fields :: "(string \<times> string \<times> bool) list"

record Tool =
  tool_name :: string
  description :: "string option"
  inputSchema :: "(string \<times> string \<times> bool) list"

definition tool_description :: "pyclass \<Rightarrow> Tool" where
  "tool_description args =
     \<lparr>tool_name = cls_name args, description = cls_doc args, inputSchema = cls_fields args\<rparr>"

text \<open>
  The classes in the namespace of the module \<open>tools\<close>, in the order of
  \<open>inspect.getmembers\<close> (sorted by name). Eight are imported from libraries, so they
  are no subclasses of \<open>ToolArgs\<close>; their documentation strings play no role and are
  left out.
\<close>

definition imported_class :: "string \<Rightarrow> pyclass" where
  "imported_class n =
     \<lparr>cls_name = n, cls_doc = None, cls_is_toolargs = False, cls_fields = []\<rparr>"

definition tools_classes :: "pyclass list" where
  "tools_classes =
     [imported_class ''BaseModel'',
      imported_class ''ConfigDict'',
      \<lparr>cls_name = ''DownloadClosedCaptions'',
       cls_doc = Some ''Download closed captions from YouTube video.'',
       cls_is_toolargs = True,
       cls_fields = [(''video_url'', ''string'', True)]\<rparr>,
      imported_class ''EmbeddedResource'',
      imported_class ''ImageContent'',
      imported_class ''ServerSession'',
      imported_class ''TextContent'',
      imported_class ''Tool'',
      \<lparr>cls_name = ''ToolArgs'', cls_doc = None, cls_is_toolargs = True, cls_fields = []\<rparr>,
      imported_class ''YouTubeTranscriptApi'']"

text \<open>
  \<open>DownloadClosedCaptions(**kwargs)\<close>: the constructor that pydantic derives for a model
  with the one required field \<open>video_url: str\<close> under the default configuration
  \<open>ConfigDict()\<close>. Keys that name no field are ignored (\<open>extra\<close> defaults to
  \<open>'ignore'\<close>); a value of a JSON type other than string is not converted. The texts
  of the validation errors are shortened.
\<close>

definition new_DownloadClosedCaptions :: "(string \<times> pyval) list \<Rightarrow> error + ToolArgs" where
  "new_DownloadClosedCaptions kwargs =
     (case map_of kwargs ''video_url'' of
        None \<Rightarrow>
          Inl (Exception ValidationError
            ''1 validation error for DownloadClosedCaptions: video_url: Field required'')
      | Some (PyStr s) \<Rightarrow> Inr (DownloadClosedCaptions s)
      | Some v \<Rightarrow>
          Inl (Exception ValidationError
            ''1 validation error for DownloadClosedCaptions: video_url: Input should be a valid string''))"

text \<open>
  \<open>tool_args(tool, **arguments)\<close>. The first parameter of \<open>tool_args\<close> is called
  \<open>tool\<close>, so a key \<open>"tool"\<close> among the arguments is a second value for it. The class
  is looked up by the name of the tool; only the names that the registry can hold
  are covered.
\<close>

definition tool_args :: "Tool \<Rightarrow> (string \<times> pyval) list \<Rightarrow> error + ToolArgs" where
  "tool_args tool kwargs =
     (if ''tool'' \<in> fst ` set kwargs
      then Inl (Exception TypeError
             (''tool_args() got multiple values for argument '' @ quoted ''tool''))
      else if tool_name tool = ''DownloadClosedCaptions''
      then new_DownloadClosedCaptions kwargs
      else Inl Unmodelled)"

text \<open>Decimal digits of a number, for the text of a \<open>TypeError\<close>.\<close>

fun show_nat :: "nat \<Rightarrow> string" where
  "show_nat n =
     (if n < 10 then [char_of (48 + n)]
      else show_nat (n div 10) @ [char_of (48 + n mod 10)])"

text \<open>
  The objects that are passed to \<open>tool_runner\<close>: the session of the current request, or
  an instance of an argument class.
\<close>

datatype pyobj = Session | Args ToolArgs

text \<open>
  \<open>tool_runner\<close> is a \<open>singledispatch\<close> function: it selects the implementation by the
  class of its first positional argument and calls it with all the arguments. The
  implementation registered for \<open>DownloadClosedCaptions\<close> is
  \<open>download_closed_captions\<close>; every other class gets the default one, which raises
  \<open>NotImplementedError\<close>. Both take exactly one positional argument.
\<close>

definition tool_runner ::
    "env \<Rightarrow> pyobj list \<Rightarrow> world \<Rightarrow> (error + content list) \<times> world" where
  "tool_runner E argv w =
     (case argv of
        [] \<Rightarrow>
          (Inl (Exception TypeError
             ''tool_runner requires at least 1 positional argument''), w)
      | Args a # rest \<Rightarrow>
          if rest = [] then download_closed_captions E a w
          else (Inl (Exception TypeError
                  (''download_closed_captions() takes 1 positional argument but ''
                   @ show_nat (length argv) @ '' were given'')), w)
      | Session # rest \<Rightarrow>
          if rest = []
          then (Inl (Exception NotImplementedError
                  (''Unsupported type: <class ''
                   @ quoted ''mcp.server.session.ServerSession'' @ ''>'')), w)
          else (Inl (Exception TypeError
                  (''tool_runner() takes 1 positional argument but ''
                   @ show_nat (length argv) @ '' were given'')), w))"

section \<open>\<open>server.py\<close>: the registry\<close>

text \<open>
  The body of \<open>enumerate_available_tools\<close> is a generator. What it yields, from first
  to last:
\<close>

definition scan :: "pyclass list \<Rightarrow> (string \<times> Tool) list" where
  "scan classes =
     map (\<lambda>c. (tool_name (tool_description c), tool_description c))
       (filter (\<lambda>c. cls_is_toolargs c \<and> cls_name c \<noteq> ''ToolArgs'') classes)"

text \<open>
  Generator objects live in a store, addressed by their position; each is given by
  the pairs it has yet to yield. \<open>enumerate_cache\<close> is the entry that
  \<open>functools.cache\<close> keeps for the call without arguments: the address of the object
  that the first call returned.
\<close>

record interp =
  generators :: "(string \<times> Tool) list list"
  enumerate_cache :: "nat option"

definition enumerate_available_tools :: "interp \<Rightarrow> nat \<times> interp" where
  "enumerate_available_tools s =
     (case enumerate_cache s of
        Some g \<Rightarrow> (g, s)
      | None \<Rightarrow>
          (let g = length (generators s)
           in (g, s\<lparr>generators := generators s @ [scan tools_classes],
                    enumerate_cache := Some g\<rparr>)))"

text \<open>Running a generator to its end, as \<open>dict(...)\<close> and \<open>list(...)\<close> do.\<close>

definition exhaust :: "nat \<Rightarrow> interp \<Rightarrow> (string \<times> Tool) list \<times> interp" where
  "exhaust g s =
     (if g < length (generators s)
      then (generators s ! g, s\<lparr>generators := (generators s)[g := []]\<rparr>)
      else ([], s))"

text \<open>\<open>dict(pairs)\<close>: a later pair replaces an earlier one with the same key.\<close>

definition dict_of :: "('k \<times> 'v) list \<Rightarrow> ('k \<rightharpoonup> 'v)" where
  "dict_of pairs = map_of (rev pairs)"

text \<open>
  Importing \<open>server.py\<close> runs \<open>mapping = dict(enumerate_available_tools())\<close> in a fresh
  interpreter.
\<close>

definition fresh_interp :: interp where
  "fresh_interp = \<lparr>generators = [], enumerate_cache = None\<rparr>"

definition import_server :: "(string \<rightharpoonup> Tool) \<times> interp" where
  "import_server =
     (let (g, s1) = enumerate_available_tools fresh_interp;
          (pairs, s2) = exhaust g s1
      in (dict_of pairs, s2))"

definition mapping :: "string \<rightharpoonup> Tool" where
  "mapping = fst import_server"

definition after_import :: interp where
  "after_import = snd import_server"

section \<open>\<open>server.py\<close>: prompts and tool calls\<close>

record PromptMessage =
  role :: string
  message_content :: content

record GetPromptResult =
  messages :: "PromptMessage list"

text \<open>
  \<open>get_prompt\<close>; its second argument is a dictionary from strings to strings, or
  \<open>None\<close>.
\<close>

definition get_prompt :: "string \<Rightarrow> (string \<times> string) list option \<Rightarrow> error + GetPromptResult" where
  "get_prompt nm args =
     (if nm = ''YoutubeVideoSummary''
      then
        (let url = (case args of
                      None \<Rightarrow> None
                    | Some d \<Rightarrow> if d = [] then None else map_of d ''yt_url'')
         in if url = None \<or> url = Some []
            then Inl (Exception ValueError ''yt_url is required'')
            else Inr \<lparr>messages =
                   [\<lparr>role = ''user'',
                     message_content = TextContent
                       (''Create a summary of the video '' @ the url
                        @ '' using closed captions. Define key takeaways, ''
                        @ ''interesting facts, and the main topic of the video.'')\<rparr>]\<rparr>)
      else Inl (Exception ValueError (''Unknown prompt: '' @ nm)))"

text \<open>
  \<open>call_tool\<close>. The \<open>except Exception\<close> clause logs and wraps what the binding of the
  arguments or the runner raises; the two checks before the \<open>try\<close> raise directly.
\<close>

definition call_tool ::
    "env \<Rightarrow> string \<Rightarrow> pyval \<Rightarrow> world \<Rightarrow> (error + content list) \<times> world" where
  "call_tool E nm arguments w =
     (case arguments of
        PyDict kwargs \<Rightarrow>
          (case mapping nm of
             None \<Rightarrow> (Inl (Exception ValueError (''Unknown tool: '' @ nm)), w)
           | Some tool \<Rightarrow>
               (case (case tool_args tool kwargs of
                        Inl e \<Rightarrow> (Inl e, w)
                      | Inr args \<Rightarrow> tool_runner E [Session, Args args] w) of
                  (Inl (Exception cls msg), w') \<Rightarrow>
                    (Inl (Exception RuntimeError (''Caught Exception. Error: '' @ msg)),
                     w'\<lparr>logged := logged w' @ [''Error running tool: '' @ nm]\<rparr>)
                | (Inl Unmodelled, w') \<Rightarrow> (Inl Unmodelled, w')
                | (Inr result, w') \<Rightarrow> (Inr result, w')))
      | _ \<Rightarrow> (Inl (Exception TypeError ''arguments must be dictionary''), w))"

section \<open>The forms of a URL, as the specification names them\<close>

text \<open>
  The host of a network location: what follows the last \<open>@\<close>, up to the port, in
  lower case.
\<close>

definition host_of :: "string \<Rightarrow> string" where
  "host_of nl =
     map ascii_lower
       (takeWhile (\<lambda>c. c \<noteq> CHR '':'') (rev (takeWhile (\<lambda>c. c \<noteq> CHR ''@'') (rev nl))))"

text \<open>The short-link form: a URL on the host \<open>youtu.be\<close> or on a subdomain of it.\<close>

definition short_link_form :: "env \<Rightarrow> string \<Rightarrow> bool" where
  "short_link_form E url =
     (case urlparse E url of
        Inl e \<Rightarrow> False
      | Inr r \<Rightarrow> host_of (netloc r) = ''youtu.be'' \<or> suffix ''.youtu.be'' (host_of (netloc r)))"

text \<open>
  The canonical form: a URL on the host \<open>youtube.com\<close> or on a subdomain of it, with a
  query parameter \<open>v\<close>.
\<close>

definition canonical_form :: "env \<Rightarrow> string \<Rightarrow> bool" where
  "canonical_form E url =
     (case urlparse E url of
        Inl e \<Rightarrow> False
      | Inr r \<Rightarrow> (host_of (netloc r) = ''youtube.com''
                  \<or> suffix ''.youtube.com'' (host_of (netloc r)))
                 \<and> ''v'' \<in> fst ` set (parse_qsl E (query r)))"

section \<open>What the parser recognizes instead\<close>

text \<open>The text \<open>youtu.be\<close> occurs somewhere in the URL.\<close>

definition contains_youtu_be :: "string \<Rightarrow> bool" where
  "contains_youtu_be url = sublist ''youtu.be'' url"

text \<open>
  The text \<open>youtube.com\<close> occurs somewhere in the network location, and the query has
  a field \<open>v\<close> with a value that is not blank.
\<close>

definition youtube_netloc_with_v :: "env \<Rightarrow> string \<Rightarrow> bool" where
  "youtube_netloc_with_v E url =
     (case urlparse E url of
        Inl e \<Rightarrow> False
      | Inr r \<Rightarrow> sublist ''youtube.com'' (netloc r)
                 \<and> ''v'' \<in> fst ` set (parse_qsl E (query r)))"

text \<open>The first value of \<open>v\<close> in the query of such a URL.\<close>

definition v_parameter :: "env \<Rightarrow> string \<Rightarrow> string option" where
  "v_parameter E url =
     (case urlparse E url of
        Inl e \<Rightarrow> None
      | Inr r \<Rightarrow> if sublist ''youtube.com'' (netloc r)
                 then map_of (parse_qsl E (query r)) ''v''
                 else None)"

text \<open>The final \<open>/\<close>-separated segment of a URL, cut before its first \<open>?\<close>.\<close>

definition final_segment :: "string \<Rightarrow> string" where
  "final_segment url =
     takeWhile (\<lambda>c. c \<noteq> CHR ''?'') (rev (takeWhile (\<lambda>c. c \<noteq> CHR ''/'') (rev url)))"

section \<open>Transcripts, as the specification names them\<close>

text \<open>
  A caption record is a dictionary with a string under \<open>"text"\<close>; \<open>caption_text\<close> is
  that string.
\<close>

definition caption_text :: "pyval \<Rightarrow> string option" where
  "caption_text line =
     (case line of
        PyDict kvs \<Rightarrow> (case map_of kvs ''text'' of Some (PyStr s) \<Rightarrow> Some s | _ \<Rightarrow> None)
      | _ \<Rightarrow> None)"

definition line_text :: "pyval \<Rightarrow> string" where
  "line_text line = (case caption_text line of None \<Rightarrow> [] | Some s \<Rightarrow> s)"

text \<open>An answer of the transcript library that is empty or not a list.\<close>

definition empty_or_not_list :: "pyval \<Rightarrow> bool" where
  "empty_or_not_list t = (case t of PyList xs \<Rightarrow> xs = [] | _ \<Rightarrow> True)"

text \<open>
  The world after a first request has fetched the transcript of \<open>v\<close> and stored its
  serialization \<open>doc\<close>.
\<close>

definition after_first_call :: "world \<Rightarrow> string \<Rightarrow> string \<Rightarrow> world" where
  "after_first_call w v doc =
     \<lparr>transcripts_dir = Some ((cache_files w)(v @ ''.json'' \<mapsto> doc)),
      fetch_log = fetch_log w @ [v],
      logged = logged w\<rparr>"

section \<open>Tools and prompts, as the specification names them\<close>

text \<open>The description of the one registered tool.\<close>

definition captions_tool :: Tool where
  "captions_tool =
     \<lparr>tool_name = ''DownloadClosedCaptions'',
      description = Some ''Download closed captions from YouTube video.'',
      inputSchema = [(''video_url'', ''string'', True)]\<rparr>"

text \<open>Values of the declared type of \<open>video_url\<close>, and raw arguments that are a mapping.\<close>

fun is_str :: "pyval \<Rightarrow> bool" where
  "is_str (PyStr s) = True"
| "is_str v = False"

fun is_dict :: "pyval \<Rightarrow> bool" where
  "is_dict (PyDict kvs) = True"
| "is_dict v = False"

text \<open>A binding that failed with a validation error.\<close>

fun validation_failure :: "error + ToolArgs \<Rightarrow> bool" where
  "validation_failure (Inl (Exception ValidationError msg)) = True"
| "validation_failure r = False"

text \<open>The instruction that the prompt \<open>YoutubeVideoSummary\<close> renders for a URL.\<close>

definition summary_request :: "string \<Rightarrow> string" where
  "summary_request url =
     ''Create a summary of the video '' @ url
     @ '' using closed captions. Define key takeaways, interesting facts, and the main topic of the video.''"

section \<open>Environments and worlds for concrete runs\<close>

text \<open>
  An environment in which the transcript library answers every request with \<open>t\<close>, and
  the JSON codec knows one document: \<open>doc\<close>, the serialization of \<open>t\<close>.
\<close>

definition fixed_env :: "pyval \<Rightarrow> string \<Rightarrow> env" where
  "fixed_env t doc =
     \<lparr>netloc_accepted = (\<lambda>n. True),
      unquote_escaped = (\<lambda>s. s),
      get_transcript = (\<lambda>h v. Inr t),
      json_dumps = (\<lambda>x. if x = t then Inr doc
                         else Inl (Exception TypeError ''Object is not JSON serializable'')),
      json_loads = (\<lambda>s. if s = doc then Inr t
                         else Inl (Exception JSONDecodeError ''Expecting value''))\<rparr>"

text \<open>A world without the transcripts directory, before any request.\<close>

definition fresh_world :: world where
  "fresh_world = \<lparr>transcripts_dir = None, fetch_log = [], logged = []\<rparr>"

text \<open>Transcripts with their serializations.\<close>

definition three_lines :: pyval where
  \<open>three_lines = PyList
     [PyDict [(''text'', PyStr ''a''), (''start'', PyFloat 0 0), (''duration'', PyFloat 3 (-1))],
      PyDict [(''text'', PyStr ''b''), (''start'', PyFloat 3 (-1)), (''duration'', PyFloat 1 1)],
      PyDict [(''text'', PyStr ''c''), (''start'', PyFloat 7 (-1)), (''duration'', PyFloat 1 0)]]\<close>

definition three_lines_doc :: string where
  \<open>three_lines_doc =
     ''[{"text": "a", "start": 0.0, "duration": 1.5}, {"text": "b", "start": 1.5, "duration": 2.0}, {"text": "c", "start": 3.5, "duration": 1.0}]''\<close>

definition one_line :: pyval where
  "one_line = PyList [PyDict [(''text'', PyStr ''hello'')]]"

definition one_line_doc :: string where
  \<open>one_line_doc = ''[{"text": "hello"}]''\<close>

text \<open>An identifier of 251 bytes: with \<open>.json\<close> it makes a file name of 256.\<close>

definition long_identifier :: string where
  "long_identifier = replicate 251 CHR ''a''"

section \<open>Splitting strings and reading queries\<close>

lemma split_chr_not_Nil: "split_chr sep s \<noteq> []"
  by (induction s) (auto split: list.splits)

lemma hd_split_chr: "hd (split_chr sep s) = takeWhile (\<lambda>c. c \<noteq> sep) s"
  by (induction s) (auto split: list.splits simp: split_chr_not_Nil)

lemma split_chr_absent: "sep \<notin> set s \<Longrightarrow> split_chr sep s = [s]"
  by (induction s) auto

lemma split_chr_present: "sep \<in> set s \<Longrightarrow> tl (split_chr sep s) \<noteq> []"
  by (induction s) (auto split: list.splits simp: split_chr_not_Nil)

lemma add_value_apply:
  "add_value d p k =
     (if k = fst p then Some ((case d k of None \<Rightarrow> [] | Some vs \<Rightarrow> vs) @ [snd p]) else d k)"
  by (simp add: add_value_def split: option.splits)

lemma parse_qs_fold_lookup:
  "foldl add_value d0 ps k =
     (let vs = map snd (filter (\<lambda>p. fst p = k) ps)
      in case d0 k of
           None \<Rightarrow> if vs = [] then None else Some vs
         | Some us \<Rightarrow> Some (us @ vs))"
proof (induction ps arbitrary: d0)
  case Nil
  show ?case by (simp add: Let_def split: option.splits)
next
  case (Cons p ps)
  have "foldl add_value d0 (p # ps) k = foldl add_value (add_value d0 p) ps k"
    by simp
  also have "\<dots> =
     (let vs = map snd (filter (\<lambda>p. fst p = k) ps)
      in case add_value d0 p k of
           None \<Rightarrow> if vs = [] then None else Some vs
         | Some us \<Rightarrow> Some (us @ vs))"
    by (rule Cons.IH)
  also have "\<dots> =
     (let vs = map snd (filter (\<lambda>p. fst p = k) (p # ps))
      in case d0 k of
           None \<Rightarrow> if vs = [] then None else Some vs
         | Some us \<Rightarrow> Some (us @ vs))"
    by (simp add: add_value_apply Let_def split: option.splits)
  finally show ?case .
qed

lemma parse_qs_lookup:
  "parse_qs E qs k =
     (if k \<in> fst ` set (parse_qsl E qs)
      then Some (map snd (filter (\<lambda>p. fst p = k) (parse_qsl E qs)))
      else None)"
proof -
  have "(map snd (filter (\<lambda>p. fst p = k) ps) = []) = (k \<notin> fst ` set ps)" for ps :: "(string \<times> string) list"
    by (induction ps) auto
  then show ?thesis
    by (simp add: parse_qs_def parse_qs_fold_lookup Let_def)
qed

lemma takeWhile_snoc_stop: "\<not> P x \<Longrightarrow> takeWhile P (xs @ [x]) = takeWhile P xs"
  by (induction xs) auto

lemma last_split_chr: "last (split_chr sep s) = rev (takeWhile (\<lambda>c. c \<noteq> sep) (rev s))"
proof (induction s)
  case Nil
  show ?case by simp
next
  case (Cons c cs)
  show ?case
  proof (cases "c = sep")
    case True
    then show ?thesis
      using Cons by (simp add: split_chr_not_Nil takeWhile_snoc_stop)
  next
    case False
    show ?thesis
    proof (cases "sep \<in> set cs")
      case True
      obtain seg segs where sp: "split_chr sep cs = seg # segs"
        using split_chr_not_Nil[of sep cs] by (cases "split_chr sep cs") auto
      from True sp have "segs \<noteq> []"
        using split_chr_present[of sep cs] by simp
      then have "last (split_chr sep (c # cs)) = last (split_chr sep cs)"
        using sp False by simp
      moreover from True have "takeWhile (\<lambda>c. c \<noteq> sep) (rev cs @ [c]) = takeWhile (\<lambda>c. c \<noteq> sep) (rev cs)"
        by (intro takeWhile_append1[where x = sep]) auto
      ultimately show ?thesis using Cons by simp
    next
      case no: False
      then have A: "split_chr sep (c # cs) = [c # cs]"
        using False by (intro split_chr_absent) simp
      have B: "takeWhile (\<lambda>c. c \<noteq> sep) (rev (c # cs)) = rev (c # cs)"
        using no False by (intro takeWhile_eq_all_conv[THEN iffD2]) auto
      show ?thesis unfolding A B by simp
    qed
  qed
qed

section \<open>The URL parser\<close>

lemma parse_short_link:
  "sublist ''youtu.be'' url \<Longrightarrow> parse_youtube_url E url = Some (final_segment url)"
  by (simp add: parse_youtube_url_def final_segment_def hd_split_chr last_split_chr)

lemma map_of_first_value:
  "map_of ps k = (case map snd (filter (\<lambda>p. fst p = k) ps) of [] \<Rightarrow> None | x # xs \<Rightarrow> Some x)"
  by (induction ps) auto

lemma parse_qs_first:
  "(case parse_qs E qs k of Some (x # xs) \<Rightarrow> Some x | _ \<Rightarrow> None) = map_of (parse_qsl E qs) k"
proof (cases "k \<in> fst ` set (parse_qsl E qs)")
  case True
  then obtain x where x: "map_of (parse_qsl E qs) k = Some x"
    by (metis map_of_eq_None_iff not_Some_eq)
  then obtain xs where "map snd (filter (\<lambda>p. fst p = k) (parse_qsl E qs)) = x # xs"
    unfolding map_of_first_value[of "parse_qsl E qs" k]
    by (cases "map snd (filter (\<lambda>p. fst p = k) (parse_qsl E qs))") auto
  with True x show ?thesis
    by (simp add: parse_qs_lookup)
next
  case False
  then have "map_of (parse_qsl E qs) k = None"
    by (simp add: map_of_eq_None_iff)
  with False show ?thesis
    by (simp add: parse_qs_lookup)
qed

lemma parse_canonical:
  "\<not> sublist ''youtu.be'' url \<Longrightarrow> parse_youtube_url E url = v_parameter E url"
proof (cases "urlparse E url")
  case (Inl e)
  assume "\<not> sublist ''youtu.be'' url"
  with Inl show ?thesis
    by (simp add: parse_youtube_url_def v_parameter_def)
next
  case (Inr r)
  assume no: "\<not> sublist ''youtu.be'' url"
  show ?thesis
  proof (cases "sublist ''youtube.com'' (netloc r)")
    case True
    with no Inr show ?thesis
      by (simp add: parse_youtube_url_def v_parameter_def parse_qs_first)
  next
    case False
    with no Inr show ?thesis
      by (simp add: parse_youtube_url_def v_parameter_def)
  qed
qed

lemma v_parameter_None:
  "\<not> youtube_netloc_with_v E url \<Longrightarrow> v_parameter E url = None"
  by (auto simp: youtube_netloc_with_v_def v_parameter_def map_of_eq_None_iff
           split: sum.splits)

text \<open>
  C2, as amended: the parser returns \<open>dQw4w9WgXcQ\<close> for the canonical URL, for the
  short link and for the canonical URL with a further parameter, and \<open>None\<close> for
  \<open>https://example.com/video\<close>. It recognizes a URL by the texts it contains, not by
  its host: for every URL that contains \<open>youtu.be\<close> it returns the final segment cut
  before the first \<open>?\<close>; for every other URL it returns the first value of \<open>v\<close> when
  the network location contains \<open>youtube.com\<close>; and for every URL that neither
  contains \<open>youtu.be\<close> nor has a network location containing \<open>youtube.com\<close> together
  with a field \<open>v\<close> that is not blank, it returns \<open>None\<close>. This holds whatever the
  environment is.
\<close>

theorem parse_youtube_url_by_containment:
  "parse_youtube_url E ''https://www.youtube.com/watch?v=dQw4w9WgXcQ'' = Some ''dQw4w9WgXcQ''
   \<and> parse_youtube_url E ''https://youtu.be/dQw4w9WgXcQ'' = Some ''dQw4w9WgXcQ''
   \<and> parse_youtube_url E ''https://www.youtube.com/watch?v=dQw4w9WgXcQ&t=123''
       = Some ''dQw4w9WgXcQ''
   \<and> parse_youtube_url E ''https://example.com/video'' = None
   \<and> (contains_youtu_be url \<longrightarrow> parse_youtube_url E url = Some (final_segment url))
   \<and> (\<not> contains_youtu_be url \<longrightarrow> parse_youtube_url E url = v_parameter E url)
   \<and> (\<not> contains_youtu_be url \<and> \<not> youtube_netloc_with_v E url \<longrightarrow>
        parse_youtube_url E url = None)"
proof (intro conjI impI)
  show "parse_youtube_url E ''https://www.youtube.com/watch?v=dQw4w9WgXcQ''
        = Some ''dQw4w9WgXcQ''"
    by code_simp
  show "parse_youtube_url E ''https://youtu.be/dQw4w9WgXcQ'' = Some ''dQw4w9WgXcQ''"
    by code_simp
  show "parse_youtube_url E ''https://www.youtube.com/watch?v=dQw4w9WgXcQ&t=123''
        = Some ''dQw4w9WgXcQ''"
    by code_simp
  show "parse_youtube_url E ''https://example.com/video'' = None"
    by code_simp
  show "parse_youtube_url E url = Some (final_segment url)" if "contains_youtu_be url"
    using that by (simp add: contains_youtu_be_def parse_short_link)
  show "parse_youtube_url E url = v_parameter E url" if "\<not> contains_youtu_be url"
    using that by (simp add: contains_youtu_be_def parse_canonical)
  show "parse_youtube_url E url = None"
    if "\<not> contains_youtu_be url \<and> \<not> youtube_netloc_with_v E url"
    using that by (simp add: contains_youtu_be_def parse_canonical v_parameter_None)
qed

theorem parse_youtube_url_by_containment_witness:
  "contains_youtu_be ''https://youtu.be/dQw4w9WgXcQ?t=42''
   \<and> parse_youtube_url (fixed_env PyNone []) ''https://youtu.be/dQw4w9WgXcQ?t=42''
       = Some ''dQw4w9WgXcQ''
   \<and> \<not> contains_youtu_be ''https://m.youtube.com/watch?t=1&v=abc&v=def''
   \<and> parse_youtube_url (fixed_env PyNone []) ''https://m.youtube.com/watch?t=1&v=abc&v=def''
       = Some ''abc''
   \<and> \<not> contains_youtu_be ''https://vimeo.com/watch?v=42''
   \<and> \<not> youtube_netloc_with_v (fixed_env PyNone []) ''https://vimeo.com/watch?v=42''
   \<and> parse_youtube_url (fixed_env PyNone []) ''https://vimeo.com/watch?v=42'' = None"
proof -
  let ?E = "fixed_env PyNone []"
  have a: "contains_youtu_be ''https://youtu.be/dQw4w9WgXcQ?t=42''"
    by code_simp
  have a': "final_segment ''https://youtu.be/dQw4w9WgXcQ?t=42'' = ''dQw4w9WgXcQ''"
    by code_simp
  have b: "\<not> contains_youtu_be ''https://m.youtube.com/watch?t=1&v=abc&v=def''"
    by code_simp
  have b': "v_parameter ?E ''https://m.youtube.com/watch?t=1&v=abc&v=def'' = Some ''abc''"
    by code_simp
  have c: "\<not> contains_youtu_be ''https://vimeo.com/watch?v=42''
           \<and> \<not> youtube_netloc_with_v ?E ''https://vimeo.com/watch?v=42''"
    by code_simp
  from parse_youtube_url_by_containment[of ?E "''https://youtu.be/dQw4w9WgXcQ?t=42''"] a a'
  have 1: "parse_youtube_url ?E ''https://youtu.be/dQw4w9WgXcQ?t=42'' = Some ''dQw4w9WgXcQ''"
    by simp
  from parse_youtube_url_by_containment[of ?E "''https://m.youtube.com/watch?t=1&v=abc&v=def''"]
    b b'
  have 2: "parse_youtube_url ?E ''https://m.youtube.com/watch?t=1&v=abc&v=def'' = Some ''abc''"
    by simp
  from parse_youtube_url_by_containment[of ?E "''https://vimeo.com/watch?v=42''"] c
  have 3: "parse_youtube_url ?E ''https://vimeo.com/watch?v=42'' = None"
    by blast
  from a b c 1 2 3 show ?thesis by blast
qed

text \<open>The URLs of the examples are of the forms they stand for.\<close>

lemma url_forms_of_examples:
  "short_link_form E ''https://youtu.be/dQw4w9WgXcQ''
   \<and> \<not> canonical_form E ''https://youtu.be/dQw4w9WgXcQ''
   \<and> canonical_form E ''https://www.youtube.com/watch?v=dQw4w9WgXcQ''
   \<and> canonical_form E ''https://www.youtube.com/watch?v=dQw4w9WgXcQ&t=123''
   \<and> \<not> short_link_form E ''https://example.com/video''
   \<and> \<not> canonical_form E ''https://example.com/video''"
  by code_simp

text \<open>
  C2 as stated fails, read by host as it is worded: \<open>https://example.com/youtu.be/abc\<close>
  is on the host \<open>example.com\<close> and \<open>https://youtube.com.evil.org/watch?v=abc\<close> on
  the host \<open>youtube.com.evil.org\<close>, so neither is of the short-link form or of the
  canonical form, and the parser returns \<open>abc\<close> for both.
\<close>

theorem parse_youtube_url_forms_counterexample:
  "\<not> short_link_form (fixed_env PyNone []) ''https://example.com/youtu.be/abc''
   \<and> \<not> canonical_form (fixed_env PyNone []) ''https://example.com/youtu.be/abc''
   \<and> parse_youtube_url (fixed_env PyNone []) ''https://example.com/youtu.be/abc''
       = Some ''abc''
   \<and> \<not> short_link_form (fixed_env PyNone []) ''https://youtube.com.evil.org/watch?v=abc''
   \<and> \<not> canonical_form (fixed_env PyNone []) ''https://youtube.com.evil.org/watch?v=abc''
   \<and> parse_youtube_url (fixed_env PyNone []) ''https://youtube.com.evil.org/watch?v=abc''
       = Some ''abc''"
  by code_simp

lemma unrecognized_empty:
  "parse_youtube_url E u = Some [] \<Longrightarrow>
   download_closed_captions E (DownloadClosedCaptions u) w =
     (Inl (Exception ValueError (''Unrecognized YouTube URL: '' @ u)), mkdir w)"
  by (simp add: download_closed_captions_def Let_def)

text \<open>
  C9: recognition of the short-link form is by containment of \<open>youtu.be\<close>, wherever it
  occurs: for every such URL the parser returns the final \<open>/\<close>-separated segment cut
  before the first \<open>?\<close>, also when the text occurs in the path of another host, and
  also when the URL is a \<open>youtube.com\<close> URL with a \<open>v\<close> parameter, whose value is
  then not looked at. For \<open>https://youtu.be/\<close> the parser returns the empty string,
  and the handler rejects the URL as unrecognized.
\<close>

theorem short_link_by_containment:
  "(sublist ''youtu.be'' url \<longrightarrow> parse_youtube_url E url = Some (final_segment url))
   \<and> parse_youtube_url E ''https://example.com/youtu.be/abc'' = Some ''abc''
   \<and> parse_youtube_url E ''https://www.youtube.com/watch?v=abc&feature=youtu.be''
       = Some ''watch''
   \<and> parse_youtube_url E ''https://youtu.be/'' = Some []
   \<and> download_closed_captions E (DownloadClosedCaptions ''https://youtu.be/'') w =
       (Inl (Exception ValueError ''Unrecognized YouTube URL: https://youtu.be/''), mkdir w)"
proof (intro conjI impI)
  show "parse_youtube_url E url = Some (final_segment url)" if "sublist ''youtu.be'' url"
    using that by (rule parse_short_link)
  show "parse_youtube_url E ''https://example.com/youtu.be/abc'' = Some ''abc''"
    by code_simp
  show "parse_youtube_url E ''https://www.youtube.com/watch?v=abc&feature=youtu.be''
        = Some ''watch''"
    by code_simp
  show e: "parse_youtube_url E ''https://youtu.be/'' = Some []"
    by code_simp
  show "download_closed_captions E (DownloadClosedCaptions ''https://youtu.be/'') w =
       (Inl (Exception ValueError ''Unrecognized YouTube URL: https://youtu.be/''), mkdir w)"
    using unrecognized_empty[OF e, of w] by simp
qed

theorem short_link_by_containment_witness:
  "sublist ''youtu.be'' ''https://example.com/youtu.be/abc?t=1''
   \<and> parse_youtube_url (fixed_env PyNone []) ''https://example.com/youtu.be/abc?t=1''
       = Some ''abc''"
proof -
  have h: "sublist ''youtu.be'' ''https://example.com/youtu.be/abc?t=1''"
    by code_simp
  have f: "final_segment ''https://example.com/youtu.be/abc?t=1'' = ''abc''"
    by code_simp
  from short_link_by_containment
         [of "''https://example.com/youtu.be/abc?t=1''" "fixed_env PyNone []" fresh_world] h f
  show ?thesis by simp
qed

section \<open>The transcript handler\<close>

lemma cache_files_mkdir: "cache_files (mkdir w) = cache_files w"
  by (simp add: mkdir_def cache_files_def)

lemma fetch_log_mkdir: "fetch_log (mkdir w) = fetch_log w"
  by (simp add: mkdir_def)

lemma transcripts_dir_mkdir: "transcripts_dir (mkdir w) = Some (cache_files w)"
  by (simp add: mkdir_def)

lemma mkdir_idem: "mkdir (mkdir w) = mkdir w"
  by (simp add: mkdir_def cache_files_def)

lemma joinpath_cong: "cache_files w' = cache_files w \<Longrightarrow> joinpath w' n = joinpath w n"
  by (auto simp: joinpath_def split: list.splits)

lemma path_exists_cong: "cache_files w' = cache_files w \<Longrightarrow> path_exists w' n = path_exists w n"
  using joinpath_cong[of w' w n] by (simp add: path_exists_def split: location.splits)

lemma unrecognized_None:
  "parse_youtube_url E u = None \<Longrightarrow>
   download_closed_captions E (DownloadClosedCaptions u) w =
     (Inl (Exception ValueError (''Unrecognized YouTube URL: '' @ u)), mkdir w)"
  by (simp add: download_closed_captions_def Let_def)

lemma miss_branch:
  assumes "parse_youtube_url E u = Some v" "v \<noteq> []"
    and "path_exists w (v @ ''.json'') = Inr False"
  shows "download_closed_captions E (DownloadClosedCaptions u) w =
     (let w2 = (mkdir w)\<lparr>fetch_log := fetch_log w @ [v]\<rparr>
      in case get_transcript E (fetch_log w) v of
           Inl e \<Rightarrow> (Inl e, w2)
         | Inr transcript \<Rightarrow>
             if \<not> truthy transcript \<or> \<not> is_list transcript
             then (Inl (Exception ValueError ''No transcript found for the video.''), w2)
             else (case json_dumps E transcript of
                     Inl e \<Rightarrow> (Inl e, w2)
                   | Inr json_data \<Rightarrow>
                       (case write_text w2 (v @ ''.json'') json_data of
                          Inl e \<Rightarrow> (Inl e, w2)
                        | Inr w3 \<Rightarrow> (render transcript, w3))))"
proof -
  have "path_exists (mkdir w) (v @ ''.json'') = Inr False"
    using assms(3) by (simp add: path_exists_cong[OF cache_files_mkdir])
  then show ?thesis
    using assms(1,2) by (simp add: download_closed_captions_def Let_def fetch_log_mkdir)
qed

lemma hit_branch:
  assumes "parse_youtube_url E u = Some v" "v \<noteq> []"
    and "path_exists w (v @ ''.json'') = Inr True"
  shows "download_closed_captions E (DownloadClosedCaptions u) w =
     (case read_text (mkdir w) (v @ ''.json'') of
        Inl e \<Rightarrow> (Inl e, mkdir w)
      | Inr json_data \<Rightarrow>
          (case json_loads E json_data of
             Inl e \<Rightarrow> (Inl e, mkdir w)
           | Inr transcript \<Rightarrow> (render transcript, mkdir w)))"
proof -
  have "path_exists (mkdir w) (v @ ''.json'') = Inr True"
    using assms(3) by (simp add: path_exists_cong[OF cache_files_mkdir])
  then show ?thesis
    using assms(1,2) by (simp add: download_closed_captions_def Let_def)
qed

lemma write_text_fetch_log: "write_text w n d = Inr w' \<Longrightarrow> fetch_log w' = fetch_log w"
proof (cases "joinpath w n")
  case (Entry c)
  assume "write_text w n d = Inr w'"
  with Entry show ?thesis
    by (cases "transcripts_dir w") (auto simp: write_text_def split: if_splits)
qed (simp_all add: write_text_def split: if_splits)

lemma miss_fetches_once:
  assumes "parse_youtube_url E u = Some v" "v \<noteq> []"
    and "path_exists w (v @ ''.json'') = Inr False"
  shows "fetch_log (snd (download_closed_captions E (DownloadClosedCaptions u) w)) = fetch_log w @ [v]"
proof -
  let ?w2 = "(mkdir w)\<lparr>fetch_log := fetch_log w @ [v]\<rparr>"
  have w2: "fetch_log ?w2 = fetch_log w @ [v]" by simp
  show ?thesis
  proof (cases "get_transcript E (fetch_log w) v")
    case (Inl e)
    then show ?thesis unfolding miss_branch[OF assms] by (simp add: Let_def)
  next
    case (Inr t)
    show ?thesis
    proof (cases "\<not> truthy t \<or> \<not> is_list t")
      case True
      then show ?thesis unfolding miss_branch[OF assms] using Inr by (simp add: Let_def)
    next
      case ok: False
      show ?thesis
      proof (cases "json_dumps E t")
        case (Inl e)
        then show ?thesis unfolding miss_branch[OF assms] using Inr ok by (simp add: Let_def)
      next
        case d: (Inr doc)
        show ?thesis
        proof (cases "write_text ?w2 (v @ ''.json'') doc")
          case (Inl e)
          then show ?thesis unfolding miss_branch[OF assms] using Inr ok d by (simp add: Let_def)
        next
          case w3: (Inr w3)
          from write_text_fetch_log[OF w3] w2 have "fetch_log w3 = fetch_log w @ [v]" by simp
          then show ?thesis unfolding miss_branch[OF assms] using Inr ok d w3 by (simp add: Let_def)
        qed
      qed
    qed
  qed
qed

lemma empty_or_not_list_iff: "empty_or_not_list t \<longleftrightarrow> \<not> truthy t \<or> \<not> is_list t"
  by (cases t) (simp_all add: empty_or_not_list_def)


lemma comprehension_map:
  "\<forall>x\<in>set xs. f x = Inr (g x) \<Longrightarrow> comprehension f xs = Inr (map g xs)"
  by (induction xs) auto

lemma getitem_text_caption: "caption_text l = Some s \<Longrightarrow> getitem_text l = Inr (PyStr s)"
  by (cases l) (auto simp: caption_text_def split: option.splits pyval.splits)

lemma render_captions:
  assumes "\<forall>l\<in>set ls. caption_text l \<noteq> None"
  shows "render (PyList ls) = Inr [TextContent (join_space (map line_text ls))]"
proof -
  have "getitem_text l = Inr (PyStr (line_text l))" if "l \<in> set ls" for l
  proof -
    from assms that obtain s where s: "caption_text l = Some s" by auto
    then show ?thesis by (simp add: line_text_def getitem_text_caption)
  qed
  then have "\<forall>l\<in>set ls. getitem_text l = Inr (PyStr (line_text l))" by blast
  then have 1: "comprehension getitem_text ls = Inr (map (\<lambda>l. PyStr (line_text l)) ls)"
    by (rule comprehension_map)
  have 2: "comprehension as_str (map (\<lambda>l. PyStr (line_text l)) ls) = Inr (map line_text ls)"
    by (induction ls) auto
  show ?thesis by (simp add: render_def 1 2)
qed

lemma joinpath_plain:
  assumes "v \<noteq> []" "CHR ''/'' \<notin> set v" "length v \<le> 250"
  shows "joinpath w (v @ ''.json'') = Entry (v @ ''.json'')"
proof -
  let ?n = "v @ ''.json''"
  have sp: "split_chr CHR ''/'' ?n = [?n]"
    using assms(2) by (intro split_chr_absent) simp
  have "length ?n \<ge> 6" using assms(1) by (cases v) auto
  then have ne: "?n \<noteq> []" "?n \<noteq> ''.''" "?n \<noteq> ''..''"
    by auto
  obtain c cs where v: "v = c # cs" using assms(1) by (cases v) auto
  with assms(2) have "c \<noteq> CHR ''/''" by auto
  then have tk: "take 1 ?n \<noteq> ''/''" using v by simp
  have len: "\<not> 255 < length ?n" using assms(3) by simp
  show ?thesis
    unfolding joinpath_def sp using ne tk len by simp
qed

text \<open>
  C10: on a cache miss, when the transcript library answers with an empty list or with
  something that is not a list, the handler raises \<open>ValueError("No transcript found
  for the video.")\<close> before it writes: the files of the cache are what they were (the
  directory itself exists from then on, and the request is in the fetch log), and the
  next request for the same URL asks the library again.
\<close>

theorem no_transcript_leaves_cache:
  assumes "parse_youtube_url E url = Some v" and "v \<noteq> []"
    and "path_exists w (v @ ''.json'') = Inr False"
    and "get_transcript E (fetch_log w) v = Inr t" and "empty_or_not_list t"
  shows "download_closed_captions E (DownloadClosedCaptions url) w =
           (Inl (Exception ValueError ''No transcript found for the video.''),
            (mkdir w)\<lparr>fetch_log := fetch_log w @ [v]\<rparr>)
         \<and> cache_files ((mkdir w)\<lparr>fetch_log := fetch_log w @ [v]\<rparr>) = cache_files w
         \<and> fetch_log (snd (download_closed_captions E (DownloadClosedCaptions url)
                             ((mkdir w)\<lparr>fetch_log := fetch_log w @ [v]\<rparr>)))
             = fetch_log w @ [v, v]"
proof -
  let ?w' = "(mkdir w)\<lparr>fetch_log := fetch_log w @ [v]\<rparr>"
  have files: "cache_files ?w' = cache_files w"
    by (simp add: cache_files_def mkdir_def)
  have first: "download_closed_captions E (DownloadClosedCaptions url) w =
           (Inl (Exception ValueError ''No transcript found for the video.''), ?w')"
    using assms(4,5) unfolding miss_branch[OF assms(1-3)]
    by (simp add: Let_def empty_or_not_list_iff)
  have "path_exists ?w' (v @ ''.json'') = Inr False"
    using assms(3) path_exists_cong[OF files] by simp
  from miss_fetches_once[OF assms(1,2) this]
  have "fetch_log (snd (download_closed_captions E (DownloadClosedCaptions url) ?w'))
        = fetch_log w @ [v, v]"
    by simp
  with first files show ?thesis by blast
qed

theorem no_transcript_leaves_cache_witness:
  "parse_youtube_url (fixed_env (PyList []) []) ''https://youtu.be/abc'' = Some ''abc''
   \<and> path_exists fresh_world ''abc.json'' = Inr False
   \<and> empty_or_not_list (PyList [])
   \<and> download_closed_captions (fixed_env (PyList []) [])
        (DownloadClosedCaptions ''https://youtu.be/abc'') fresh_world =
      (Inl (Exception ValueError ''No transcript found for the video.''),
       (mkdir fresh_world)\<lparr>fetch_log := [''abc'']\<rparr>)
   \<and> cache_files ((mkdir fresh_world)\<lparr>fetch_log := [''abc'']\<rparr>) = cache_files fresh_world
   \<and> fetch_log (snd (download_closed_captions (fixed_env (PyList []) [])
        (DownloadClosedCaptions ''https://youtu.be/abc'')
        ((mkdir fresh_world)\<lparr>fetch_log := [''abc'']\<rparr>))) = [''abc'', ''abc'']"
proof -
  let ?E = "fixed_env (PyList []) []"
  have p: "parse_youtube_url ?E ''https://youtu.be/abc'' = Some ''abc''"
    by code_simp
  have ne: "''abc'' \<noteq> []" by simp
  have miss: "path_exists fresh_world (''abc'' @ ''.json'') = Inr False"
    by code_simp
  have f: "get_transcript ?E (fetch_log fresh_world) ''abc'' = Inr (PyList [])"
    by (simp add: fixed_env_def)
  have e: "empty_or_not_list (PyList [])"
    by (simp add: empty_or_not_list_def)
  have fl: "fetch_log fresh_world = []"
    by (simp add: fresh_world_def)
  from no_transcript_leaves_cache[OF p ne miss f e] p miss e fl
  show ?thesis by simp
qed

text \<open>
  C7, as amended: for every URL from which no identifier is extracted (the parser
  returns \<open>None\<close> or the empty string) the handler raises
  \<open>ValueError("Unrecognized YouTube URL: ...")\<close>. The transcripts directory has been
  created by then if it was absent; no file of the cache is read, written or created,
  and the transcript library is not called.
\<close>

theorem unrecognized_url_effects:
  assumes "parse_youtube_url E url = None \<or> parse_youtube_url E url = Some []"
  shows "download_closed_captions E (DownloadClosedCaptions url) w =
           (Inl (Exception ValueError (''Unrecognized YouTube URL: '' @ url)), mkdir w)
         \<and> transcripts_dir (mkdir w) = Some (cache_files w)
         \<and> cache_files (mkdir w) = cache_files w
         \<and> fetch_log (mkdir w) = fetch_log w"
  using assms unrecognized_None[of E url w]
  by (auto simp: download_closed_captions_def Let_def cache_files_mkdir fetch_log_mkdir transcripts_dir_mkdir)


theorem unrecognized_url_effects_witness:
  "(parse_youtube_url (fixed_env PyNone []) ''https://example.com/video'' = None
    \<or> parse_youtube_url (fixed_env PyNone []) ''https://example.com/video'' = Some [])
   \<and> download_closed_captions (fixed_env PyNone [])
        (DownloadClosedCaptions ''https://example.com/video'') fresh_world =
      (Inl (Exception ValueError ''Unrecognized YouTube URL: https://example.com/video''),
       mkdir fresh_world)
   \<and> transcripts_dir (mkdir fresh_world) = Some (cache_files fresh_world)
   \<and> cache_files (mkdir fresh_world) = cache_files fresh_world
   \<and> fetch_log (mkdir fresh_world) = fetch_log fresh_world"
proof -
  have p: "parse_youtube_url (fixed_env PyNone []) ''https://example.com/video'' = None
    \<or> parse_youtube_url (fixed_env PyNone []) ''https://example.com/video'' = Some []"
    by code_simp
  from unrecognized_url_effects[OF p, of fresh_world] p
  show ?thesis by simp
qed

text \<open>
  C7 as stated fails: the directory is created before the URL is parsed. In a world
  without the transcripts directory, a request with \<open>https://example.com/video\<close>
  leaves the directory behind.
\<close>

theorem unrecognized_url_counterexample:
  "parse_youtube_url (fixed_env PyNone []) ''https://example.com/video'' = None
   \<and> transcripts_dir fresh_world = None
   \<and> transcripts_dir (snd (download_closed_captions (fixed_env PyNone [])
        (DownloadClosedCaptions ''https://example.com/video'') fresh_world)) \<noteq> None"
  by code_simp


text \<open>
  C1, as amended: let a URL parse to an identifier \<open>v\<close> that is not empty, contains
  neither \<open>/\<close> nor NUL and has at most 250 bytes (so that \<open>v.json\<close> is a file name),
  let the cache have no file for \<open>v\<close>, let the transcript library
  answer with a non-empty list of caption records, and let \<open>json.loads\<close> read back
  what \<open>json.dumps\<close> wrote. Then the first request fetches once, stores the document
  and returns the texts of the lines joined by spaces; the second request returns
  the same text and leaves the world, and with it the fetch log, as the first left it.
\<close>

theorem cache_idempotence:
  assumes "parse_youtube_url E url = Some v"
    and "v \<noteq> []" and "CHR ''/'' \<notin> set v" and "CHR 0x00 \<notin> set v"
    and "length v \<le> 250"
    and "cache_files w (v @ ''.json'') = None"
    and "get_transcript E (fetch_log w) v = Inr (PyList ls)"
    and "ls \<noteq> []" and "\<forall>l\<in>set ls. caption_text l \<noteq> None"
    and "json_dumps E (PyList ls) = Inr doc"
    and "json_loads E doc = Inr (PyList ls)"
  shows "download_closed_captions E (DownloadClosedCaptions url) w =
           (Inr [TextContent (join_space (map line_text ls))], after_first_call w v doc)
         \<and> download_closed_captions E (DownloadClosedCaptions url) (after_first_call w v doc) =
           (Inr [TextContent (join_space (map line_text ls))], after_first_call w v doc)
         \<and> fetch_log (after_first_call w v doc) = fetch_log w @ [v]"
proof -
  let ?n = "v @ ''.json''"
  let ?w1 = "after_first_call w v doc"
  let ?w2 = "(mkdir w)\<lparr>fetch_log := fetch_log w @ [v]\<rparr>"
  have nul: "CHR 0x00 \<notin> set ?n" using assms(4) by simp
  have jp: "joinpath x ?n = Entry ?n" for x
    using assms(2,3,5) by (rule joinpath_plain)
  have miss: "path_exists w ?n = Inr False"
    using assms(6) nul by (simp add: path_exists_def jp)
  have wr: "write_text ?w2 ?n doc = Inr ?w1"
    using nul by (simp add: write_text_def jp mkdir_def after_first_call_def)
  have rd: "render (PyList ls) = Inr [TextContent (join_space (map line_text ls))]"
    using assms(9) by (rule render_captions)
  have first: "download_closed_captions E (DownloadClosedCaptions url) w =
           (Inr [TextContent (join_space (map line_text ls))], ?w1)"
    unfolding miss_branch[OF assms(1,2) miss]
    using assms(7,8,10) wr rd by (simp add: Let_def)
  have files1: "cache_files ?w1 ?n = Some doc"
    by (simp add: after_first_call_def cache_files_def)
  have hit: "path_exists ?w1 ?n = Inr True"
    using nul files1 by (simp add: path_exists_def jp)
  have mk: "mkdir ?w1 = ?w1"
    by (simp add: mkdir_def after_first_call_def cache_files_def)
  have read: "read_text ?w1 ?n = Inr doc"
    using nul files1 by (simp add: read_text_def jp)
  have second: "download_closed_captions E (DownloadClosedCaptions url) ?w1 =
           (Inr [TextContent (join_space (map line_text ls))], ?w1)"
    unfolding hit_branch[OF assms(1,2) hit]
    using read assms(11) rd by (simp add: mk)
  have "fetch_log ?w1 = fetch_log w @ [v]" by (simp add: after_first_call_def)
  with first second show ?thesis by blast
qed

theorem cache_idempotence_witness:
  "parse_youtube_url (fixed_env three_lines three_lines_doc) ''https://youtu.be/dQw4w9WgXcQ''
     = Some ''dQw4w9WgXcQ''
   \<and> cache_files fresh_world ''dQw4w9WgXcQ.json'' = None
   \<and> download_closed_captions (fixed_env three_lines three_lines_doc)
        (DownloadClosedCaptions ''https://youtu.be/dQw4w9WgXcQ'') fresh_world
      = (Inr [TextContent ''a b c''], after_first_call fresh_world ''dQw4w9WgXcQ'' three_lines_doc)
   \<and> download_closed_captions (fixed_env three_lines three_lines_doc)
        (DownloadClosedCaptions ''https://youtu.be/dQw4w9WgXcQ'')
        (after_first_call fresh_world ''dQw4w9WgXcQ'' three_lines_doc)
      = (Inr [TextContent ''a b c''], after_first_call fresh_world ''dQw4w9WgXcQ'' three_lines_doc)
   \<and> fetch_log (after_first_call fresh_world ''dQw4w9WgXcQ'' three_lines_doc) = [''dQw4w9WgXcQ'']"
proof -
  let ?E = "fixed_env three_lines three_lines_doc"
  let ?ls = "[PyDict [(''text'', PyStr ''a''), (''start'', PyFloat 0 0), (''duration'', PyFloat 3 (-1))],
      PyDict [(''text'', PyStr ''b''), (''start'', PyFloat 3 (-1)), (''duration'', PyFloat 1 1)],
      PyDict [(''text'', PyStr ''c''), (''start'', PyFloat 7 (-1)), (''duration'', PyFloat 1 0)]]"
  have p: "parse_youtube_url ?E ''https://youtu.be/dQw4w9WgXcQ'' = Some ''dQw4w9WgXcQ''"
    by code_simp
  have ne: "''dQw4w9WgXcQ'' \<noteq> []" by simp
  have sl: "CHR ''/'' \<notin> set ''dQw4w9WgXcQ''" by simp
  have nul: "CHR 0x00 \<notin> set ''dQw4w9WgXcQ''" by simp
  have len: "length ''dQw4w9WgXcQ'' \<le> 250" by simp
  have miss: "cache_files fresh_world (''dQw4w9WgXcQ'' @ ''.json'') = None"
    by (simp add: cache_files_def fresh_world_def)
  have f: "get_transcript ?E (fetch_log fresh_world) ''dQw4w9WgXcQ'' = Inr (PyList ?ls)"
    by (simp add: fixed_env_def three_lines_def)
  have nonempty: "?ls \<noteq> []" by simp
  have caps: "\<forall>l\<in>set ?ls. caption_text l \<noteq> None"
    by (simp add: caption_text_def)
  have d: "json_dumps ?E (PyList ?ls) = Inr three_lines_doc"
    by (simp add: fixed_env_def three_lines_def)
  have l: "json_loads ?E three_lines_doc = Inr (PyList ?ls)"
    by (simp add: fixed_env_def three_lines_def)
  have joined: "join_space (map line_text ?ls) = ''a b c''"
    by (simp add: line_text_def caption_text_def)
  have fl: "fetch_log fresh_world = []"
    by (simp add: fresh_world_def)
  from cache_idempotence[OF p ne sl nul len miss f nonempty caps d l] p miss joined fl
  show ?thesis by simp
qed

text \<open>
  C1 as stated fails for identifiers that are no file names and for the empty one.
  The URL \<open>https://www.youtube.com/watch?v=a/b\<close> parses to \<open>a/b\<close>; the cache file would
  lie in a subdirectory that does not exist, so writing it fails after the fetch, and
  the second request fetches again. The URL \<open>https://youtu.be/\<close> parses to the
  empty string; both requests are rejected and nothing is fetched. A short link with
  an identifier of 251 bytes asks for a file name of 256 bytes; \<open>Path.exists\<close> raises
  \<open>OSError\<close> in both requests, before anything is fetched.
\<close>

theorem cache_idempotence_counterexample:
  "parse_youtube_url (fixed_env one_line one_line_doc) ''https://www.youtube.com/watch?v=a/b''
     = Some ''a/b''
   \<and> cache_files fresh_world ''a/b.json'' = None
   \<and> fst (download_closed_captions (fixed_env one_line one_line_doc)
            (DownloadClosedCaptions ''https://www.youtube.com/watch?v=a/b'') fresh_world)
      = Inl (Exception FileNotFoundError ''[Errno 2] No such file or directory'')
   \<and> fetch_log (snd (download_closed_captions (fixed_env one_line one_line_doc)
            (DownloadClosedCaptions ''https://www.youtube.com/watch?v=a/b'')
            (snd (download_closed_captions (fixed_env one_line one_line_doc)
               (DownloadClosedCaptions ''https://www.youtube.com/watch?v=a/b'') fresh_world))))
      = [''a/b'', ''a/b'']
   \<and> parse_youtube_url (fixed_env one_line one_line_doc) ''https://youtu.be/'' = Some []
   \<and> fetch_log (snd (download_closed_captions (fixed_env one_line one_line_doc)
            (DownloadClosedCaptions ''https://youtu.be/'')
            (snd (download_closed_captions (fixed_env one_line one_line_doc)
               (DownloadClosedCaptions ''https://youtu.be/'') fresh_world))))
      = []
   \<and> parse_youtube_url (fixed_env one_line one_line_doc) (''https://youtu.be/'' @ long_identifier)
      = Some long_identifier
   \<and> cache_files fresh_world (long_identifier @ ''.json'') = None
   \<and> fst (download_closed_captions (fixed_env one_line one_line_doc)
            (DownloadClosedCaptions (''https://youtu.be/'' @ long_identifier)) fresh_world)
      = Inl (Exception OSError ''[Errno 36] File name too long'')
   \<and> fetch_log (snd (download_closed_captions (fixed_env one_line one_line_doc)
            (DownloadClosedCaptions (''https://youtu.be/'' @ long_identifier))
            (snd (download_closed_captions (fixed_env one_line one_line_doc)
               (DownloadClosedCaptions (''https://youtu.be/'' @ long_identifier)) fresh_world))))
      = []"
  by code_simp

section \<open>The registry\<close>

lemma scan_tools_classes: "scan tools_classes = [(''DownloadClosedCaptions'', captions_tool)]"
  by (simp add: scan_def tools_classes_def imported_class_def tool_description_def captions_tool_def)

lemma import_server_eval:
  "import_server =
     ([''DownloadClosedCaptions'' \<mapsto> captions_tool],
      \<lparr>generators = [[]], enumerate_cache = Some 0\<rparr>)"
  by (simp add: import_server_def enumerate_available_tools_def fresh_interp_def exhaust_def
        scan_tools_classes dict_of_def Let_def)

lemma mapping_eval: "mapping = [''DownloadClosedCaptions'' \<mapsto> captions_tool]"
  by (simp add: mapping_def import_server_eval)

lemma after_import_eval: "after_import = \<lparr>generators = [[]], enumerate_cache = Some 0\<rparr>"
  by (simp add: after_import_def import_server_eval)

text \<open>
  C3: the first enumeration yields exactly one pair, for \<open>DownloadClosedCaptions\<close>,
  under the name of the class, and \<open>mapping\<close> holds it. The memoization does not do
  what the claim says: \<open>functools.cache\<close> keeps the generator object that the first
  call returned, and \<open>dict(...)\<close> has run it to its end while the module was imported.
  A second call returns that same object, and it yields nothing.
\<close>

theorem enumerate_second_call_empty:
  "fst (exhaust (fst (enumerate_available_tools fresh_interp))
          (snd (enumerate_available_tools fresh_interp)))
     = [(''DownloadClosedCaptions'', captions_tool)]
   \<and> mapping ''DownloadClosedCaptions'' = Some captions_tool
   \<and> fst (enumerate_available_tools after_import) = fst (enumerate_available_tools fresh_interp)
   \<and> fst (exhaust (fst (enumerate_available_tools after_import))
          (snd (enumerate_available_tools after_import))) = []"
  by (simp add: mapping_eval after_import_eval enumerate_available_tools_def fresh_interp_def
        exhaust_def scan_tools_classes Let_def)

section \<open>Tool calls\<close>

lemma tool_runner_session:
  "tool_runner E [Session, Args a] w =
     (Inl (Exception TypeError ''tool_runner() takes 1 positional argument but 2 were given''), w)"
proof -
  have "show_nat (Suc (Suc 0)) = ''2''" by code_simp
  then show ?thesis by (simp add: tool_runner_def del: show_nat.simps)
qed

text \<open>
  C5: for every name that \<open>mapping\<close> does not hold and every dictionary of arguments,
  \<open>call_tool\<close> raises \<open>ValueError("Unknown tool: ...")\<close>; the world is left as it was,
  whatever the arguments and the environment are: nothing is bound, run, fetched,
  written or logged.
\<close>

theorem unknown_tool:
  assumes "mapping nm = None"
  shows "call_tool E nm (PyDict kwargs) w = (Inl (Exception ValueError (''Unknown tool: '' @ nm)), w)"
  using assms by (simp add: call_tool_def)

theorem unknown_tool_witness:
  "mapping ''SummarizeVideo'' = None
   \<and> call_tool (fixed_env PyNone []) ''SummarizeVideo''
        (PyDict [(''video_url'', PyStr ''https://youtu.be/abc'')]) fresh_world
      = (Inl (Exception ValueError ''Unknown tool: SummarizeVideo''), fresh_world)"
proof -
  have m: "mapping ''SummarizeVideo'' = None"
    by (simp add: mapping_eval)
  from unknown_tool[OF m, of "fixed_env PyNone []" "[(''video_url'', PyStr ''https://youtu.be/abc'')]" fresh_world] m
  show ?thesis by simp
qed

text \<open>
  C4: for a registered tool and a dictionary of arguments, an exception raised by the
  binding of the arguments or by the runner is logged and raised again as
  \<open>RuntimeError("Caught Exception. Error: " + str(e))\<close>; and every exception that
  leaves \<open>call_tool\<close> for such a call is of this form.
\<close>

theorem call_tool_wraps_exceptions:
  assumes "mapping nm = Some tool"
  shows "(tool_args tool kwargs = Inl (Exception cls msg) \<longrightarrow>
            call_tool E nm (PyDict kwargs) w =
              (Inl (Exception RuntimeError (''Caught Exception. Error: '' @ msg)),
               w\<lparr>logged := logged w @ [''Error running tool: '' @ nm]\<rparr>))
         \<and> (tool_args tool kwargs = Inr args
              \<and> tool_runner E [Session, Args args] w = (Inl (Exception cls msg), w') \<longrightarrow>
            call_tool E nm (PyDict kwargs) w =
              (Inl (Exception RuntimeError (''Caught Exception. Error: '' @ msg)),
               w'\<lparr>logged := logged w' @ [''Error running tool: '' @ nm]\<rparr>))
         \<and> (call_tool E nm (PyDict kwargs) w = (Inl (Exception c m), w'') \<longrightarrow>
              c = RuntimeError \<and> prefix ''Caught Exception. Error: '' m)"
proof (intro conjI impI)
  show "call_tool E nm (PyDict kwargs) w =
          (Inl (Exception RuntimeError (''Caught Exception. Error: '' @ msg)),
           w\<lparr>logged := logged w @ [''Error running tool: '' @ nm]\<rparr>)"
    if "tool_args tool kwargs = Inl (Exception cls msg)"
    using that assms by (simp add: call_tool_def)
  show "call_tool E nm (PyDict kwargs) w =
          (Inl (Exception RuntimeError (''Caught Exception. Error: '' @ msg)),
           w'\<lparr>logged := logged w' @ [''Error running tool: '' @ nm]\<rparr>)"
    if "tool_args tool kwargs = Inr args
          \<and> tool_runner E [Session, Args args] w = (Inl (Exception cls msg), w')"
    using that assms by (simp add: call_tool_def)
  assume r: "call_tool E nm (PyDict kwargs) w = (Inl (Exception c m), w'')"
  obtain out wo where o: "(case tool_args tool kwargs of
                        Inl e \<Rightarrow> (Inl e, w)
                      | Inr args \<Rightarrow> tool_runner E [Session, Args args] w) = (out, wo)"
    by (cases "(case tool_args tool kwargs of
                        Inl e \<Rightarrow> (Inl e, w)
                      | Inr args \<Rightarrow> tool_runner E [Session, Args args] w)") auto
  from r assms o have "c = RuntimeError \<and> prefix ''Caught Exception. Error: '' m"
    unfolding call_tool_def
    by (cases out; simp split: error.splits) auto
  then show "c = RuntimeError" and "prefix ''Caught Exception. Error: '' m" by simp_all
qed

theorem call_tool_wraps_exceptions_witness:
  "mapping ''DownloadClosedCaptions'' = Some captions_tool
   \<and> tool_args captions_tool [] =
       Inl (Exception ValidationError
         ''1 validation error for DownloadClosedCaptions: video_url: Field required'')
   \<and> call_tool (fixed_env PyNone []) ''DownloadClosedCaptions'' (PyDict []) fresh_world =
       (Inl (Exception RuntimeError
          ''Caught Exception. Error: 1 validation error for DownloadClosedCaptions: video_url: Field required''),
        fresh_world\<lparr>logged := [''Error running tool: DownloadClosedCaptions'']\<rparr>)
   \<and> tool_args captions_tool [(''video_url'', PyStr ''https://youtu.be/abc'')] =
       Inr (DownloadClosedCaptions ''https://youtu.be/abc'')
   \<and> tool_runner (fixed_env PyNone [])
         [Session, Args (DownloadClosedCaptions ''https://youtu.be/abc'')] fresh_world =
       (Inl (Exception TypeError
          ''tool_runner() takes 1 positional argument but 2 were given''), fresh_world)
   \<and> call_tool (fixed_env PyNone []) ''DownloadClosedCaptions''
         (PyDict [(''video_url'', PyStr ''https://youtu.be/abc'')]) fresh_world =
       (Inl (Exception RuntimeError
          ''Caught Exception. Error: tool_runner() takes 1 positional argument but 2 were given''),
        fresh_world\<lparr>logged := [''Error running tool: DownloadClosedCaptions'']\<rparr>)
   \<and> prefix ''Caught Exception. Error: ''
         ''Caught Exception. Error: tool_runner() takes 1 positional argument but 2 were given''"
proof -
  let ?E = "fixed_env PyNone []"
  let ?kw = "[(''video_url'', PyStr ''https://youtu.be/abc'')]"
  have m: "mapping ''DownloadClosedCaptions'' = Some captions_tool"
    by (simp add: mapping_eval)
  have b1: "tool_args captions_tool [] =
       Inl (Exception ValidationError
         ''1 validation error for DownloadClosedCaptions: video_url: Field required'')"
    by (simp add: tool_args_def new_DownloadClosedCaptions_def captions_tool_def)
  have b2: "tool_args captions_tool ?kw = Inr (DownloadClosedCaptions ''https://youtu.be/abc'')"
    by (simp add: tool_args_def new_DownloadClosedCaptions_def captions_tool_def)
  have r2: "tool_runner ?E [Session, Args (DownloadClosedCaptions ''https://youtu.be/abc'')] fresh_world =
       (Inl (Exception TypeError
          ''tool_runner() takes 1 positional argument but 2 were given''), fresh_world)"
    by (rule tool_runner_session)
  have fl: "logged fresh_world = []" by (simp add: fresh_world_def)
  note t1 = call_tool_wraps_exceptions[OF m, where kwargs = "[]" and cls = ValidationError
      and msg = "''1 validation error for DownloadClosedCaptions: video_url: Field required''"
      and E = ?E and w = fresh_world]
  note t2 = call_tool_wraps_exceptions[OF m, where kwargs = ?kw and E = ?E and w = fresh_world
      and args = "DownloadClosedCaptions ''https://youtu.be/abc''" and cls = TypeError
      and msg = "''tool_runner() takes 1 positional argument but 2 were given''"
      and w' = fresh_world]
  from t1 b1 have c1: "call_tool ?E ''DownloadClosedCaptions'' (PyDict []) fresh_world =
       (Inl (Exception RuntimeError
          ''Caught Exception. Error: 1 validation error for DownloadClosedCaptions: video_url: Field required''),
        fresh_world\<lparr>logged := [''Error running tool: DownloadClosedCaptions'']\<rparr>)"
    using fl by simp
  from t2 b2 r2 have c2: "call_tool ?E ''DownloadClosedCaptions'' (PyDict ?kw) fresh_world =
       (Inl (Exception RuntimeError
          ''Caught Exception. Error: tool_runner() takes 1 positional argument but 2 were given''),
        fresh_world\<lparr>logged := [''Error running tool: DownloadClosedCaptions'']\<rparr>)"
    using fl by simp
  have p: "prefix ''Caught Exception. Error: ''
         ''Caught Exception. Error: tool_runner() takes 1 positional argument but 2 were given''"
    by code_simp
  from m b1 c1 b2 r2 c2 p show ?thesis by blast
qed

text \<open>
  As the code stands, the runner is called with the session as its first argument, so
  \<open>singledispatch\<close> selects the default implementation, which takes one argument and
  gets two: no call of \<open>call_tool\<close> returns a result.
\<close>

lemma call_tool_never_returns: "fst (call_tool E nm arguments w) \<noteq> Inr result"
proof (cases arguments)
  case (PyDict kwargs)
  show ?thesis
  proof (cases "mapping nm")
    case None
    then show ?thesis using PyDict by (simp add: call_tool_def)
  next
    case (Some tool)
    show ?thesis
    proof (cases "tool_args tool kwargs")
      case (Inl e)
      then show ?thesis using PyDict Some
        by (cases e) (simp_all add: call_tool_def)
    next
      case (Inr args)
      then show ?thesis using PyDict Some
        by (simp add: call_tool_def tool_runner_session)
    qed
  qed
qed (simp_all add: call_tool_def)

text \<open>
  C6, as amended: for the registered tool and arguments without a key \<open>tool\<close>, binding
  fails with a validation error when \<open>video_url\<close> is missing or is not a string, and
  succeeds with the field populated when \<open>video_url\<close> is a string, whatever other
  keys the arguments have; raw arguments that are not a dictionary are rejected by
  \<open>call_tool\<close> with a \<open>TypeError\<close>.
\<close>

theorem bind_arguments:
  assumes "mapping nm = Some tool" and "''tool'' \<notin> fst ` set kwargs"
  shows "(map_of kwargs ''video_url'' = None \<longrightarrow> validation_failure (tool_args tool kwargs))
       \<and> (map_of kwargs ''video_url'' = Some v \<and> \<not> is_str v \<longrightarrow>
            validation_failure (tool_args tool kwargs))
       \<and> (map_of kwargs ''video_url'' = Some (PyStr s) \<longrightarrow>
            tool_args tool kwargs = Inr (DownloadClosedCaptions s))
       \<and> (\<not> is_dict arguments \<longrightarrow>
            call_tool E nm arguments w =
              (Inl (Exception TypeError ''arguments must be dictionary''), w))"
proof -
  from assms(1) have tool: "tool = captions_tool" and nm: "nm = ''DownloadClosedCaptions''"
    by (auto simp: mapping_eval split: if_splits)
  have ta: "tool_args tool kwargs = new_DownloadClosedCaptions kwargs"
    using assms(2) by (simp add: tool_args_def tool captions_tool_def)
  have 1: "validation_failure (tool_args tool kwargs)" if "map_of kwargs ''video_url'' = None"
    using that by (simp add: ta new_DownloadClosedCaptions_def)
  have 2: "validation_failure (tool_args tool kwargs)"
    if "map_of kwargs ''video_url'' = Some v \<and> \<not> is_str v"
    using that by (cases v) (simp_all add: ta new_DownloadClosedCaptions_def)
  have 3: "tool_args tool kwargs = Inr (DownloadClosedCaptions s)"
    if "map_of kwargs ''video_url'' = Some (PyStr s)"
    using that by (simp add: ta new_DownloadClosedCaptions_def)
  have 4: "call_tool E nm arguments w =
              (Inl (Exception TypeError ''arguments must be dictionary''), w)"
    if "\<not> is_dict arguments"
    using that by (cases arguments) (simp_all add: call_tool_def)
  from 1 2 3 4 show ?thesis by blast
qed

theorem bind_arguments_witness:
  "mapping ''DownloadClosedCaptions'' = Some captions_tool
   \<and> validation_failure (tool_args captions_tool [(''quality'', PyStr ''hd'')])
   \<and> validation_failure (tool_args captions_tool [(''video_url'', PyInt 5)])
   \<and> tool_args captions_tool [(''video_url'', PyStr ''https://youtu.be/abc''), (''quality'', PyStr ''hd'')]
       = Inr (DownloadClosedCaptions ''https://youtu.be/abc'')
   \<and> call_tool (fixed_env PyNone []) ''DownloadClosedCaptions'' (PyList []) fresh_world
       = (Inl (Exception TypeError ''arguments must be dictionary''), fresh_world)"
proof -
  have m: "mapping ''DownloadClosedCaptions'' = Some captions_tool"
    by (simp add: mapping_eval)
  have k1: "''tool'' \<notin> fst ` set [(''quality'', PyStr ''hd'')]" by simp
  have k2: "''tool'' \<notin> fst ` set [(''video_url'', PyInt 5)]" by simp
  have k3: "''tool'' \<notin> fst ` set [(''video_url'', PyStr ''https://youtu.be/abc''), (''quality'', PyStr ''hd'')]"
    by simp
  from bind_arguments[OF m k1, of "PyNone" "[]" "PyList []" "fixed_env PyNone []" fresh_world]
  have a: "validation_failure (tool_args captions_tool [(''quality'', PyStr ''hd'')])"
    and d: "call_tool (fixed_env PyNone []) ''DownloadClosedCaptions'' (PyList []) fresh_world
       = (Inl (Exception TypeError ''arguments must be dictionary''), fresh_world)"
    by simp_all
  from bind_arguments[OF m k2, of "PyInt 5" "[]" "PyList []" "fixed_env PyNone []" fresh_world]
  have b: "validation_failure (tool_args captions_tool [(''video_url'', PyInt 5)])"
    by simp
  from bind_arguments[OF m k3, of "PyNone" "''https://youtu.be/abc''" "PyList []" "fixed_env PyNone []" fresh_world]
  have c: "tool_args captions_tool [(''video_url'', PyStr ''https://youtu.be/abc''), (''quality'', PyStr ''hd'')]
       = Inr (DownloadClosedCaptions ''https://youtu.be/abc'')"
    by simp
  from m a b c d show ?thesis by blast
qed

text \<open>
  C6 as stated fails: a key that names no field is ignored under the default
  configuration of the model, so arguments with the unknown field \<open>quality\<close> bind.
\<close>

theorem bind_arguments_counterexample:
  "mapping ''DownloadClosedCaptions'' = Some captions_tool
   \<and> map_of [(''video_url'', PyStr ''https://youtu.be/abc''), (''quality'', PyStr ''hd'')] ''quality''
       = Some (PyStr ''hd'')
   \<and> tool_args captions_tool [(''video_url'', PyStr ''https://youtu.be/abc''), (''quality'', PyStr ''hd'')]
       = Inr (DownloadClosedCaptions ''https://youtu.be/abc'')"
  by (simp add: mapping_eval tool_args_def new_DownloadClosedCaptions_def captions_tool_def)

section \<open>Prompts\<close>

text \<open>
  C8, as amended: for the prompt \<open>YoutubeVideoSummary\<close> and arguments with a non-empty
  \<open>yt_url = X\<close>, \<open>get_prompt\<close> returns one message of the role \<open>user\<close> whose text
  contains \<open>X\<close>; without \<open>yt_url\<close>, or without arguments, it raises
  \<open>ValueError("yt_url is required")\<close>; for every other name it raises
  \<open>ValueError("Unknown prompt: ...")\<close>.
\<close>

theorem get_prompt_summary:
  "(map_of d ''yt_url'' = Some X \<and> X \<noteq> [] \<longrightarrow>
      get_prompt ''YoutubeVideoSummary'' (Some d) =
        Inr \<lparr>messages = [\<lparr>role = ''user'', message_content = TextContent (summary_request X)\<rparr>]\<rparr>
      \<and> sublist X (summary_request X))
   \<and> (map_of d ''yt_url'' = None \<longrightarrow>
      get_prompt ''YoutubeVideoSummary'' (Some d) = Inl (Exception ValueError ''yt_url is required''))
   \<and> get_prompt ''YoutubeVideoSummary'' None = Inl (Exception ValueError ''yt_url is required'')
   \<and> (nm \<noteq> ''YoutubeVideoSummary'' \<longrightarrow>
      get_prompt nm args = Inl (Exception ValueError (''Unknown prompt: '' @ nm)))"
proof (intro conjI impI)
  assume h: "map_of d ''yt_url'' = Some X \<and> X \<noteq> []"
  then have "d \<noteq> []" by auto
  with h show "get_prompt ''YoutubeVideoSummary'' (Some d) =
        Inr \<lparr>messages = [\<lparr>role = ''user'', message_content = TextContent (summary_request X)\<rparr>]\<rparr>"
    by (simp add: get_prompt_def summary_request_def Let_def)
  show "sublist X (summary_request X)"
    unfolding summary_request_def by (rule sublist_appendI)
next
  assume "map_of d ''yt_url'' = None"
  then show "get_prompt ''YoutubeVideoSummary'' (Some d) = Inl (Exception ValueError ''yt_url is required'')"
    by (simp add: get_prompt_def Let_def)
next
  show "get_prompt ''YoutubeVideoSummary'' None = Inl (Exception ValueError ''yt_url is required'')"
    by (simp add: get_prompt_def Let_def)
next
  assume "nm \<noteq> ''YoutubeVideoSummary''"
  then show "get_prompt nm args = Inl (Exception ValueError (''Unknown prompt: '' @ nm))"
    by (simp add: get_prompt_def)
qed

theorem get_prompt_summary_witness:
  "map_of [(''yt_url'', ''https://youtu.be/abc'')] ''yt_url'' = Some ''https://youtu.be/abc''
   \<and> get_prompt ''YoutubeVideoSummary'' (Some [(''yt_url'', ''https://youtu.be/abc'')]) =
        Inr \<lparr>messages = [\<lparr>role = ''user'', message_content = TextContent
          ''Create a summary of the video https://youtu.be/abc using closed captions. Define key takeaways, interesting facts, and the main topic of the video.''\<rparr>]\<rparr>
   \<and> sublist ''https://youtu.be/abc'' (summary_request ''https://youtu.be/abc'')
   \<and> get_prompt ''YoutubeVideoSummary'' (Some [(''video'', ''https://youtu.be/abc'')])
        = Inl (Exception ValueError ''yt_url is required'')
   \<and> get_prompt ''Summary'' (Some [(''yt_url'', ''https://youtu.be/abc'')])
        = Inl (Exception ValueError ''Unknown prompt: Summary'')"
proof -
  have h: "map_of [(''yt_url'', ''https://youtu.be/abc'')] ''yt_url'' = Some ''https://youtu.be/abc''
           \<and> ''https://youtu.be/abc'' \<noteq> []"
    by simp
  have n: "map_of [(''video'', ''https://youtu.be/abc'')] ''yt_url'' = None" by simp
  have o: "''Summary'' \<noteq> ''YoutubeVideoSummary''" by simp
  have s: "summary_request ''https://youtu.be/abc'' =
     ''Create a summary of the video https://youtu.be/abc using closed captions. Define key takeaways, interesting facts, and the main topic of the video.''"
    by (simp add: summary_request_def)
  from get_prompt_summary[of "[(''yt_url'', ''https://youtu.be/abc'')]" "''https://youtu.be/abc''"
         "''Summary''" "Some [(''yt_url'', ''https://youtu.be/abc'')]"] h o
  have a: "get_prompt ''YoutubeVideoSummary'' (Some [(''yt_url'', ''https://youtu.be/abc'')]) =
        Inr \<lparr>messages = [\<lparr>role = ''user'', message_content =
          TextContent (summary_request ''https://youtu.be/abc'')\<rparr>]\<rparr>"
    and b: "sublist ''https://youtu.be/abc'' (summary_request ''https://youtu.be/abc'')"
    and c: "get_prompt ''Summary'' (Some [(''yt_url'', ''https://youtu.be/abc'')])
        = Inl (Exception ValueError (''Unknown prompt: '' @ ''Summary''))"
    by blast+
  from get_prompt_summary[of "[(''video'', ''https://youtu.be/abc'')]" "[]" "[]" None] n
  have e: "get_prompt ''YoutubeVideoSummary'' (Some [(''video'', ''https://youtu.be/abc'')])
        = Inl (Exception ValueError ''yt_url is required'')"
    by blast
  from h a b c e s show ?thesis by simp
qed

text \<open>
  C8 as stated fails for \<open>X = ""\<close>: the test \<open>not url\<close> takes the empty string for a
  missing argument.
\<close>

theorem get_prompt_summary_counterexample:
  "map_of [(''yt_url'', [])] ''yt_url'' = Some []
   \<and> get_prompt ''YoutubeVideoSummary'' (Some [(''yt_url'', [])])
       = Inl (Exception ValueError ''yt_url is required'')"
  by (simp add: get_prompt_def Let_def)

end
